theory Spec2Isabelle
  imports Main "HOL-Library.Word"
begin

section \<open>Errors, the client and its construction\<close>

text \<open>
  The \<open>error\<close> values an operation of the package can return.  \<open>Errorf s\<close> is the value
  built by \<open>fmt.Errorf("%s", s)\<close>, whose message is \<open>s\<close>.  The other constructors are the
  errors of the libraries the package calls.  \<open>UrlError op url err\<close> is the \<open>url.Error\<close>
  that \<open>url.Parse\<close> returns: its message is \<open>op\<close>, the URL in quotes, a colon and the
  message of \<open>err\<close>, which for \<open>EscapeError s\<close> is \<open>invalid URL escape\<close> and \<open>s\<close> in quotes.
  \<open>MethodError m\<close> is the refusal of the method \<open>m\<close> by \<open>http.NewRequestWithContext\<close>,
  \<open>TransportError\<close> an error of the transport (\<open>http.DefaultClient.Do\<close>, \<open>io.ReadAll\<close>),
  the last three are the errors of \<open>json.Marshal\<close> and \<open>json.Unmarshal\<close> (a syntax error,
  or a JSON value that does not fit the Go type it is stored into).
\<close>

datatype url_failure = EscapeError string | InvalidControlCharacter | OtherHost

datatype error =
    Errorf string
  | UrlError string string url_failure
  | MethodError string
  | TransportError string
  | MarshalError
  | SyntaxError
  | UnmarshalTypeError

record Client =
  secret :: string

text \<open>
  \<open>alog.Fatal\<close> logs its message and ends the process, so that \<open>NewClient\<close> does not
  return: the outcome of a call that may end the process is \<open>Fatal msg\<close> or \<open>Returned v\<close>.
\<close>

datatype 'a outcome = Fatal string | Returned 'a

text \<open>\<open>os.Getenv\<close>: the value of the variable, the empty string when it is unset.\<close>

definition Getenv :: "(string \<rightharpoonup> string) \<Rightarrow> string \<Rightarrow> string" where
  "Getenv env key = (case env key of None \<Rightarrow> [] | Some v \<Rightarrow> v)"

definition NewClient :: "(string \<rightharpoonup> string) \<Rightarrow> Client outcome" where
  "NewClient env =
     (let secret = Getenv env ''PAYSTACK_SECRET'' in
      if secret = [] then Fatal ''PAYSTACK_SECRET env var not set''
      else Returned \<lparr>secret = secret\<rparr>)"

section \<open>Formatting and JSON text\<close>

text \<open>
  Go strings are byte sequences, and so is \<open>string\<close> here.  The two characters that a
  string literal of this file cannot hold are named.
\<close>

definition dquote :: char where "dquote = CHR 0x22"
definition bslash :: char where "bslash = CHR 0x5C"

text \<open>\<open>fmt.Sprintf("%d", i)\<close>: the decimal digits of \<open>i\<close>, after a minus sign when \<open>i < 0\<close>.\<close>

definition digit_char :: "nat \<Rightarrow> char" where
  "digit_char d = ''0123456789abcdef'' ! d"

function FormatUint :: "nat \<Rightarrow> string" where
  "FormatUint n = (if n < 10 then [digit_char n] else FormatUint (n div 10) @ [digit_char (n mod 10)])"
  by pat_completeness auto
termination
  by (relation "measure id") auto

definition Sprintf_d :: "int \<Rightarrow> string" where
  "Sprintf_d i = (if i < 0 then CHR ''-'' # FormatUint (nat (- i)) else FormatUint (nat i))"

text \<open>
  \<open>utf8.DecodeRune\<close>, as far as its callers need it: the length of the well-formed UTF-8
  sequence at the head of the string, and 0 when the head is no such sequence (Go then
  yields \<open>RuneError\<close> of width 1).
\<close>

definition byte_at :: "string \<Rightarrow> nat \<Rightarrow> nat" where
  "byte_at s i = (if i < length s then of_char (s ! i) else 0)"

definition is_cont :: "nat \<Rightarrow> bool" where
  "is_cont b = (128 \<le> b \<and> b < 192)"

definition DecodeRune_size :: "string \<Rightarrow> nat" where
  "DecodeRune_size s =
     (let b0 = byte_at s 0; b1 = byte_at s 1; b2 = byte_at s 2; b3 = byte_at s 3 in
      if b0 < 128 then 1
      else if 194 \<le> b0 \<and> b0 \<le> 223 then (if is_cont b1 then 2 else 0)
      else if b0 = 224 then (if 160 \<le> b1 \<and> b1 < 192 \<and> is_cont b2 then 3 else 0)
      else if b0 = 237 then (if 128 \<le> b1 \<and> b1 < 160 \<and> is_cont b2 then 3 else 0)
      else if 225 \<le> b0 \<and> b0 \<le> 239 then (if is_cont b1 \<and> is_cont b2 then 3 else 0)
      else if b0 = 240 then (if 144 \<le> b1 \<and> b1 < 192 \<and> is_cont b2 \<and> is_cont b3 then 4 else 0)
      else if 241 \<le> b0 \<and> b0 \<le> 243 then (if is_cont b1 \<and> is_cont b2 \<and> is_cont b3 then 4 else 0)
      else if b0 = 244 then (if 128 \<le> b1 \<and> b1 < 144 \<and> is_cont b2 \<and> is_cont b3 then 4 else 0)
      else 0)"

text \<open>
  The string encoder of \<open>encoding/json\<close> as \<open>json.Marshal\<close> uses it: quotes and
  backslashes are escaped, control characters and \<open><\<close>, \<open>>\<close>, \<open>&\<close> are written as
  \<open>\u00XX\<close> apart from the five short escapes, U+2028 and U+2029 are escaped, and a
  byte that is not part of well-formed UTF-8 is replaced by U+FFFD, written in UTF-8.
\<close>

definition RuneError :: string where
  "RuneError = [CHR 0xEF, CHR 0xBF, CHR 0xBD]"

definition escape_byte :: "char \<Rightarrow> string" where
  "escape_byte c =
     (let b = (of_char c :: nat) in
      if c = bslash \<or> c = dquote then [bslash, c]
      else if b = 8 then [bslash, CHR ''b'']
      else if b = 12 then [bslash, CHR ''f'']
      else if b = 10 then [bslash, CHR ''n'']
      else if b = 13 then [bslash, CHR ''r'']
      else if b = 9 then [bslash, CHR ''t'']
      else if b < 32 \<or> c = CHR ''<'' \<or> c = CHR ''>'' \<or> c = CHR ''&''
        then [bslash, CHR ''u'', CHR ''0'', CHR ''0'', digit_char (b div 16), digit_char (b mod 16)]
      else [c])"

function appendString :: "string \<Rightarrow> string" where
  "appendString [] = []"
| "appendString (c # cs) =
     (if (of_char c :: nat) < 128 then escape_byte c @ appendString cs
      else (let n = DecodeRune_size (c # cs) in
        if n = 0 then RuneError @ appendString cs
        else if take 3 (c # cs) = [CHR 0xE2, CHR 0x80, CHR 0xA8] then bslash # ''u2028'' @ appendString (drop 2 cs)
        else if take 3 (c # cs) = [CHR 0xE2, CHR 0x80, CHR 0xA9] then bslash # ''u2029'' @ appendString (drop 2 cs)
        else take n (c # cs) @ appendString (drop (n - 1) cs)))"
  by pat_completeness auto
termination
  by (relation "measure length") auto

definition quote :: "string \<Rightarrow> string" where
  "quote s = dquote # appendString s @ [dquote]"

text \<open>
  JSON values.  A number keeps its literal, as the decoder of \<open>encoding/json\<close> does until
  it knows the Go type the number is stored into.
\<close>

datatype json =
    JNull
  | JBool bool
  | JNumber string
  | JString string
  | JArray "json list"
  | JObject "(string \<times> json) list"

fun join_commas :: "string list \<Rightarrow> string" where
  "join_commas [] = []"
| "join_commas [x] = x"
| "join_commas (x # y # ys) = x @ '','' @ join_commas (y # ys)"

fun json_encode :: "json \<Rightarrow> string" where
  "json_encode JNull = ''null''"
| "json_encode (JBool b) = (if b then ''true'' else ''false'')"
| "json_encode (JNumber lit) = lit"
| "json_encode (JString s) = quote s"
| "json_encode (JArray xs) = ''['' @ join_commas (map json_encode xs) @ '']''"
| "json_encode (JObject ms) =
     ''{'' @ join_commas (map (\<lambda>m. quote (fst m) @ '':'' @ json_encode (snd m)) ms) @ ''}''"

section \<open>Reading JSON text\<close>

text \<open>
  \<open>json.Unmarshal\<close> first checks the whole input against the JSON grammar and only then
  decodes.  The grammar is modelled by a lexer and a pushdown automaton on its tokens,
  which also builds the value.
\<close>

datatype token =
    TLBrace | TRBrace | TLBrack | TRBrack | TColon | TComma
  | TString string | TNumber string | TTrue | TFalse | TNull

definition isSpace :: "char \<Rightarrow> bool" where
  "isSpace c = (c = CHR '' '' \<or> c = CHR 0x09 \<or> c = CHR 0x0D \<or> c = CHR 0x0A)"

definition isDigit :: "char \<Rightarrow> bool" where
  "isDigit c = (48 \<le> (of_char c :: nat) \<and> (of_char c :: nat) \<le> 57)"

definition isHex :: "char \<Rightarrow> bool" where
  "isHex c = (isDigit c \<or> c \<in> set ''abcdefABCDEF'')"

fun string_len :: "string \<Rightarrow> nat option" where
  "string_len [] = None"
| "string_len (c # cs) =
     (if c = dquote then Some 0
      else if c = bslash then
        (case cs of
           [] \<Rightarrow> None
         | e # cs' \<Rightarrow>
             if e \<in> set [dquote, bslash, CHR ''/'', CHR ''b'', CHR ''f'', CHR ''n'', CHR ''r'', CHR ''t'']
             then map_option (\<lambda>n. n + 2) (string_len cs')
             else if e = CHR ''u'' then
               (case cs' of
                  h1 # h2 # h3 # h4 # cs'' \<Rightarrow>
                    if isHex h1 \<and> isHex h2 \<and> isHex h3 \<and> isHex h4
                    then map_option (\<lambda>n. n + 6) (string_len cs'') else None
                | _ \<Rightarrow> None)
             else None)
      else if (of_char c :: nat) < 32 then None
      else map_option Suc (string_len cs))"

definition number_len :: "string \<Rightarrow> nat option" where
  "number_len s =
     (let s1 = (case s of c # r \<Rightarrow> if c = CHR ''-'' then r else s | [] \<Rightarrow> s);
          sign = length s - length s1 in
      case s1 of
        [] \<Rightarrow> None
      | d # r \<Rightarrow>
          if \<not> isDigit d then None
          else
            (let ip = (if d = CHR ''0'' then 1 else 1 + length (takeWhile isDigit r));
                 s2 = drop ip s1;
                 fr = (case s2 of
                         c # r2 \<Rightarrow> if c = CHR ''.'' then Some (1 + length (takeWhile isDigit r2)) else Some 0
                       | [] \<Rightarrow> Some 0)
             in case fr of
                  None \<Rightarrow> None
                | Some fl \<Rightarrow>
                    if fl = 1 then None
                    else
                      (let s3 = drop fl s2 in
                       case s3 of
                         [] \<Rightarrow> Some (sign + ip + fl)
                       | c # r3 \<Rightarrow>
                           if c = CHR ''e'' \<or> c = CHR ''E'' then
                             (let r4 = (case r3 of x # r' \<Rightarrow> if x = CHR ''+'' \<or> x = CHR ''-'' then r' else r3 | [] \<Rightarrow> r3);
                                  el = length (takeWhile isDigit r4)
                              in if el = 0 then None
                                 else Some (sign + ip + fl + 1 + (length r3 - length r4) + el))
                           else Some (sign + ip + fl))))"

function lex :: "string \<Rightarrow> token list option" where
  "lex [] = Some []"
| "lex (c # cs) =
     (if isSpace c then lex cs
      else if c = CHR ''{'' then map_option (Cons TLBrace) (lex cs)
      else if c = CHR ''}'' then map_option (Cons TRBrace) (lex cs)
      else if c = CHR ''['' then map_option (Cons TLBrack) (lex cs)
      else if c = CHR '']'' then map_option (Cons TRBrack) (lex cs)
      else if c = CHR '':'' then map_option (Cons TColon) (lex cs)
      else if c = CHR '','' then map_option (Cons TComma) (lex cs)
      else if c = dquote then
        (case string_len cs of
           None \<Rightarrow> None
         | Some n \<Rightarrow> map_option (Cons (TString (take n cs))) (lex (drop (Suc n) cs)))
      else if c = CHR ''-'' \<or> isDigit c then
        (case number_len (c # cs) of
           None \<Rightarrow> None
         | Some n \<Rightarrow> map_option (Cons (TNumber (take n (c # cs)))) (lex (drop (n - 1) cs)))
      else if take 4 (c # cs) = ''true'' then map_option (Cons TTrue) (lex (drop 3 cs))
      else if take 5 (c # cs) = ''false'' then map_option (Cons TFalse) (lex (drop 4 cs))
      else if take 4 (c # cs) = ''null'' then map_option (Cons TNull) (lex (drop 3 cs))
      else None)"
  by pat_completeness auto
termination
  by (relation "measure length") auto

text \<open>
  The contents of a string literal, decoded as the decoder's \<open>unquote\<close> does: escapes
  are resolved, a \<open>\u\<close> escape becomes UTF-8 (a surrogate pair one rune, a lone
  surrogate U+FFFD), and invalid UTF-8 in the input becomes U+FFFD.
\<close>

definition hex_val :: "char \<Rightarrow> nat" where
  "hex_val c =
     (let b = (of_char c :: nat) in
      if isDigit c then b - 48
      else if 97 \<le> b then b - 87
      else b - 55)"

definition getu4 :: "string \<Rightarrow> nat option" where
  "getu4 s =
     (case s of
        b # u # h1 # h2 # h3 # h4 # _ \<Rightarrow>
          if b = bslash \<and> u = CHR ''u'' \<and> isHex h1 \<and> isHex h2 \<and> isHex h3 \<and> isHex h4
          then Some (((hex_val h1 * 16 + hex_val h2) * 16 + hex_val h3) * 16 + hex_val h4)
          else None
      | _ \<Rightarrow> None)"

definition isSurrogate :: "nat \<Rightarrow> bool" where
  "isSurrogate r = (0xD800 \<le> r \<and> r < 0xE000)"

definition EncodeRune :: "nat \<Rightarrow> string" where
  "EncodeRune r =
     (if r < 0x80 then [char_of r]
      else if r < 0x800 then [char_of (0xC0 + r div 64), char_of (0x80 + r mod 64)]
      else if 0x10FFFF < r \<or> isSurrogate r then RuneError
      else if r < 0x10000 then
        [char_of (0xE0 + r div 4096), char_of (0x80 + (r div 64) mod 64), char_of (0x80 + r mod 64)]
      else
        [char_of (0xF0 + r div 262144), char_of (0x80 + (r div 4096) mod 64),
         char_of (0x80 + (r div 64) mod 64), char_of (0x80 + r mod 64)])"

definition DecodeRune16 :: "nat \<Rightarrow> nat option \<Rightarrow> nat option" where
  "DecodeRune16 r1 r2 =
     (case r2 of
        None \<Rightarrow> None
      | Some r2' \<Rightarrow>
          if 0xD800 \<le> r1 \<and> r1 < 0xDC00 \<and> 0xDC00 \<le> r2' \<and> r2' < 0xE000
          then Some ((r1 - 0xD800) * 1024 + (r2' - 0xDC00) + 0x10000)
          else None)"

definition unescape_char :: "char \<Rightarrow> char" where
  "unescape_char e =
     (if e = CHR ''b'' then CHR 0x08
      else if e = CHR ''f'' then CHR 0x0C
      else if e = CHR ''n'' then CHR 0x0A
      else if e = CHR ''r'' then CHR 0x0D
      else if e = CHR ''t'' then CHR 0x09
      else e)"

function unquote :: "string \<Rightarrow> string" where
  "unquote [] = []"
| "unquote (c # cs) =
     (if c = bslash then
        (case cs of
           [] \<Rightarrow> []
         | e # cs' \<Rightarrow>
             if e = CHR ''u'' then
               (case getu4 (c # cs) of
                  None \<Rightarrow> []
                | Some rr \<Rightarrow>
                    if isSurrogate rr then
                      (case DecodeRune16 rr (getu4 (drop 5 cs)) of
                         Some dec \<Rightarrow> EncodeRune dec @ unquote (drop 11 cs)
                       | None \<Rightarrow> RuneError @ unquote (drop 5 cs))
                    else EncodeRune rr @ unquote (drop 5 cs))
             else unescape_char e # unquote cs')
      else if (of_char c :: nat) < 128 then c # unquote cs
      else (let n = DecodeRune_size (c # cs) in
            if n = 0 then RuneError @ unquote cs
            else take n (c # cs) @ unquote (drop (n - 1) cs)))"
  by pat_completeness auto
termination
  by (relation "measure length") auto

text \<open>
  The automaton: a stack of the arrays and objects under construction, and what the
  grammar allows next.  The scanner of \<open>encoding/json\<close> refuses nesting deeper than
  10000.
\<close>

datatype frame = FArr "json list" | FObj "(string \<times> json) list" "string option"

datatype expect = EValue | EValueOrEnd | EKeyOrEnd | EKey | EColon | ECommaOrEnd | EDone

definition maxNestingDepth :: nat where
  "maxNestingDepth = 10000"

type_synonym pstate = "expect \<times> frame list \<times> json option"

fun put_value :: "json \<Rightarrow> frame list \<Rightarrow> pstate option" where
  "put_value v [] = Some (EDone, [], Some v)"
| "put_value v (FArr xs # st) = Some (ECommaOrEnd, FArr (v # xs) # st, None)"
| "put_value v (FObj ms (Some k) # st) = Some (ECommaOrEnd, FObj ((k, v) # ms) None # st, None)"
| "put_value v (FObj ms None # st) = None"

definition push_frame :: "expect \<Rightarrow> frame \<Rightarrow> frame list \<Rightarrow> pstate option" where
  "push_frame e f st = (if length (f # st) \<le> maxNestingDepth then Some (e, f # st, None) else None)"

fun begin_value :: "token \<Rightarrow> frame list \<Rightarrow> pstate option" where
  "begin_value (TString raw) st = put_value (JString (unquote raw)) st"
| "begin_value (TNumber lit) st = put_value (JNumber lit) st"
| "begin_value TTrue st = put_value (JBool True) st"
| "begin_value TFalse st = put_value (JBool False) st"
| "begin_value TNull st = put_value JNull st"
| "begin_value TLBrack st = push_frame EValueOrEnd (FArr []) st"
| "begin_value TLBrace st = push_frame EKeyOrEnd (FObj [] None) st"
| "begin_value _ st = None"

fun pstep :: "pstate \<Rightarrow> token \<Rightarrow> pstate option" where
  "pstep (EValue, st, r) t = begin_value t st"
| "pstep (EValueOrEnd, FArr xs # st, r) TRBrack = put_value (JArray (rev xs)) st"
| "pstep (EValueOrEnd, st, r) t = begin_value t st"
| "pstep (EKeyOrEnd, FObj ms None # st, r) TRBrace = put_value (JObject (rev ms)) st"
| "pstep (EKeyOrEnd, FObj ms None # st, r) (TString raw) = Some (EColon, FObj ms (Some (unquote raw)) # st, None)"
| "pstep (EKeyOrEnd, st, r) t = None"
| "pstep (EKey, FObj ms None # st, r) (TString raw) = Some (EColon, FObj ms (Some (unquote raw)) # st, None)"
| "pstep (EKey, st, r) t = None"
| "pstep (EColon, st, r) TColon = Some (EValue, st, None)"
| "pstep (EColon, st, r) t = None"
| "pstep (ECommaOrEnd, FArr xs # st, r) TComma = Some (EValue, FArr xs # st, None)"
| "pstep (ECommaOrEnd, FArr xs # st, r) TRBrack = put_value (JArray (rev xs)) st"
| "pstep (ECommaOrEnd, FObj ms None # st, r) TComma = Some (EKey, FObj ms None # st, None)"
| "pstep (ECommaOrEnd, FObj ms None # st, r) TRBrace = put_value (JObject (rev ms)) st"
| "pstep (ECommaOrEnd, st, r) t = None"
| "pstep (EDone, st, r) t = None"

fun prun :: "pstate \<Rightarrow> token list \<Rightarrow> json option" where
  "prun (e, st, r) [] = (if e = EDone then r else None)"
| "prun s (t # ts) = (case pstep s t of None \<Rightarrow> None | Some s' \<Rightarrow> prun s' ts)"

definition json_parse :: "string \<Rightarrow> json option" where
  "json_parse data = (case lex data of None \<Rightarrow> None | Some ts \<Rightarrow> prun (EValue, [], None) ts)"

definition member_names :: "string \<Rightarrow> string list option" where
  "member_names data =
     (case json_parse data of Some (JObject ms) \<Rightarrow> Some (map fst ms) | _ \<Rightarrow> None)"

section \<open>Storing JSON values into Go values\<close>

text \<open>
  An object key selects the struct field whose JSON name equals it, and failing that the
  field whose name equals it up to Unicode simple case folding.  Two runes outside ASCII
  fold to ASCII letters (U+017F to \<open>S\<close>, U+212A to \<open>K\<close>); every other rune outside ASCII
  folds to a rune outside ASCII and is left as it is here, which makes no difference for
  the ASCII field names of this package.
\<close>

definition toUpper :: "char \<Rightarrow> char" where
  "toUpper c =
     (if 97 \<le> (of_char c :: nat) \<and> (of_char c :: nat) \<le> 122
      then ''ABCDEFGHIJKLMNOPQRSTUVWXYZ'' ! ((of_char c :: nat) - 97)
      else c)"

function foldName :: "string \<Rightarrow> string" where
  "foldName [] = []"
| "foldName (c # cs) =
     (if take 2 (c # cs) = [CHR 0xC5, CHR 0xBF] then CHR ''S'' # foldName (drop 1 cs)
      else if take 3 (c # cs) = [CHR 0xE2, CHR 0x84, CHR 0xAA] then CHR ''K'' # foldName (drop 2 cs)
      else toUpper c # foldName cs)"
  by pat_completeness auto
termination
  by (relation "measure length") auto

definition find_field :: "string list \<Rightarrow> string \<Rightarrow> string option" where
  "find_field names key =
     (if key \<in> set names then Some key
      else find (\<lambda>n. foldName n = foldName key) names)"

text \<open>
  \<open>strconv.ParseInt(s, 10, 64)\<close>, by which a JSON number is stored into an \<open>int\<close>
  (64 bits on the platforms considered): an optional sign, decimal digits only, and a
  value within range.
\<close>

definition ParseInt64 :: "string \<Rightarrow> int option" where
  "ParseInt64 s =
     (let neg = (take 1 s = ''-'');
          ds = (if take 1 s = ''-'' \<or> take 1 s = ''+'' then drop 1 s else s) in
      if ds = [] \<or> \<not> list_all isDigit ds then None
      else
        (let n = foldl (\<lambda>a c. 10 * a + int (hex_val c)) 0 ds;
             v = (if neg then - n else n) in
         if - (2 ^ 63) \<le> v \<and> v < 2 ^ 63 then Some v else None))"

text \<open>
  Storing a JSON value into a Go value returns the new Go value and the error, if any.
  A value of the wrong kind leaves the destination as it was and is an
  \<open>UnmarshalTypeError\<close>; decoding goes on after it and the first such error is the one
  returned.  \<open>null\<close> leaves strings, numbers, booleans and structs as they were and sets a
  pointer to nil.  Any other value stored through a nil pointer allocates the pointee
  first, also when the value then turns out to be of the wrong kind.  Keys that select
  no field are skipped.
\<close>

definition first_error :: "error option \<Rightarrow> error option \<Rightarrow> error option" where
  "first_error saved e = (case saved of None \<Rightarrow> e | Some _ \<Rightarrow> saved)"

definition store_string :: "json \<Rightarrow> string \<Rightarrow> string \<times> error option" where
  "store_string v old =
     (case v of JString s \<Rightarrow> (s, None) | JNull \<Rightarrow> (old, None) | _ \<Rightarrow> (old, Some UnmarshalTypeError))"

definition store_int :: "json \<Rightarrow> int \<Rightarrow> int \<times> error option" where
  "store_int v old =
     (case v of
        JNumber lit \<Rightarrow> (case ParseInt64 lit of Some n \<Rightarrow> (n, None) | None \<Rightarrow> (old, Some UnmarshalTypeError))
      | JNull \<Rightarrow> (old, None)
      | _ \<Rightarrow> (old, Some UnmarshalTypeError))"

definition store_bool :: "json \<Rightarrow> bool \<Rightarrow> bool \<times> error option" where
  "store_bool v old =
     (case v of JBool b \<Rightarrow> (b, None) | JNull \<Rightarrow> (old, None) | _ \<Rightarrow> (old, Some UnmarshalTypeError))"

definition store_struct ::
  "(string \<Rightarrow> json \<Rightarrow> 's \<Rightarrow> 's \<times> error option) \<Rightarrow> json \<Rightarrow> 's \<Rightarrow> 's \<times> error option" where
  "store_struct set_field v old =
     (case v of
        JObject ms \<Rightarrow>
          foldl (\<lambda>(s, saved) (k, x). (case set_field k x s of (s', e) \<Rightarrow> (s', first_error saved e)))
            (old, None) ms
      | JNull \<Rightarrow> (old, None)
      | _ \<Rightarrow> (old, Some UnmarshalTypeError))"

definition store_pointer ::
  "(json \<Rightarrow> 's \<Rightarrow> 's \<times> error option) \<Rightarrow> 's \<Rightarrow> json \<Rightarrow> 's option \<Rightarrow> 's option \<times> error option" where
  "store_pointer store zero v old =
     (case v of
        JNull \<Rightarrow> (None, None)
      | _ \<Rightarrow> (case store v (case old of None \<Rightarrow> zero | Some s \<Rightarrow> s) of (s', e) \<Rightarrow> (Some s', e)))"

definition json_Unmarshal ::
  "(json \<Rightarrow> 'r \<Rightarrow> 'r \<times> error option) \<Rightarrow> string \<Rightarrow> 'r \<Rightarrow> error option \<times> 'r" where
  "json_Unmarshal store data dst =
     (case json_parse data of
        None \<Rightarrow> (Some SyntaxError, dst)
      | Some v \<Rightarrow> (case store v dst of (dst', e) \<Rightarrow> (e, dst')))"

definition json_Marshal :: "('q \<Rightarrow> json) \<Rightarrow> 'q \<Rightarrow> error + string" where
  "json_Marshal to_json q = Inr (json_encode (to_json q))"

section \<open>The data shapes of the package\<close>

text \<open>
  Each struct is a record; its \<open>_json\<close> function is the JSON object that the struct tags
  give it (one member for every field, in the order of declaration, no field omitted),
  its \<open>_set_field\<close> function stores the value of one object member.  Field names that
  several structs share carry a prefix.
\<close>

record Customer =
  Id :: int
  Email :: string
  CustomerCode :: string

definition Customer_zero :: Customer where
  "Customer_zero = \<lparr>Id = 0, Email = [], CustomerCode = []\<rparr>"

definition Customer_set_field :: "string \<Rightarrow> json \<Rightarrow> Customer \<Rightarrow> Customer \<times> error option" where
  "Customer_set_field key v c =
     (case find_field [''id'', ''email'', ''customer_code''] key of
        None \<Rightarrow> (c, None)
      | Some f \<Rightarrow>
          if f = ''id'' then (case store_int v (Id c) of (x, e) \<Rightarrow> (c\<lparr>Id := x\<rparr>, e))
          else if f = ''email'' then (case store_string v (Email c) of (x, e) \<Rightarrow> (c\<lparr>Email := x\<rparr>, e))
          else (case store_string v (CustomerCode c) of (x, e) \<Rightarrow> (c\<lparr>CustomerCode := x\<rparr>, e)))"

record CreateCustomerResp =
  ccr_Data :: "Customer option"

definition CreateCustomerResp_set_field ::
  "string \<Rightarrow> json \<Rightarrow> CreateCustomerResp \<Rightarrow> CreateCustomerResp \<times> error option" where
  "CreateCustomerResp_set_field key v r =
     (case find_field [''data''] key of
        None \<Rightarrow> (r, None)
      | Some f \<Rightarrow>
          (case store_pointer (store_struct Customer_set_field) Customer_zero v (ccr_Data r) of
             (x, e) \<Rightarrow> (r\<lparr>ccr_Data := x\<rparr>, e)))"

definition Customer_json :: "Customer \<Rightarrow> json" where
  "Customer_json c =
     JObject [(''id'', JNumber (Sprintf_d (Id c))),
              (''email'', JString (Email c)),
              (''customer_code'', JString (CustomerCode c))]"

record InitializedTransaction =
  Reference :: string
  AuthorizationUrl :: string
  AccessCode :: string

definition InitializedTransaction_zero :: InitializedTransaction where
  "InitializedTransaction_zero = \<lparr>Reference = [], AuthorizationUrl = [], AccessCode = []\<rparr>"

definition InitializedTransaction_set_field ::
  "string \<Rightarrow> json \<Rightarrow> InitializedTransaction \<Rightarrow> InitializedTransaction \<times> error option" where
  "InitializedTransaction_set_field key v t =
     (case find_field [''reference'', ''authorization_url'', ''access_code''] key of
        None \<Rightarrow> (t, None)
      | Some f \<Rightarrow>
          if f = ''reference'' then (case store_string v (Reference t) of (x, e) \<Rightarrow> (t\<lparr>Reference := x\<rparr>, e))
          else if f = ''authorization_url'' then
            (case store_string v (AuthorizationUrl t) of (x, e) \<Rightarrow> (t\<lparr>AuthorizationUrl := x\<rparr>, e))
          else (case store_string v (AccessCode t) of (x, e) \<Rightarrow> (t\<lparr>AccessCode := x\<rparr>, e)))"

record InitTransactionReq =
  itq_Email :: string
  itq_Amount :: string

definition InitTransactionReq_json :: "InitTransactionReq \<Rightarrow> json" where
  "InitTransactionReq_json r =
     JObject [(''email'', JString (itq_Email r)), (''amount'', JString (itq_Amount r))]"

record InitTransactionResp =
  itr_Data :: "InitializedTransaction option"

definition InitTransactionResp_set_field ::
  "string \<Rightarrow> json \<Rightarrow> InitTransactionResp \<Rightarrow> InitTransactionResp \<times> error option" where
  "InitTransactionResp_set_field key v r =
     (case find_field [''Data''] key of
        None \<Rightarrow> (r, None)
      | Some f \<Rightarrow>
          (case store_pointer (store_struct InitializedTransaction_set_field) InitializedTransaction_zero v (itr_Data r) of
             (x, e) \<Rightarrow> (r\<lparr>itr_Data := x\<rparr>, e)))"

record ChargeTransactionReq =
  ctq_Email :: string
  ctq_Amount :: string
  ctq_AuthorizationCode :: string

definition ChargeTransactionReq_json :: "ChargeTransactionReq \<Rightarrow> json" where
  "ChargeTransactionReq_json r =
     JObject [(''email'', JString (ctq_Email r)), (''amount'', JString (ctq_Amount r)),
              (''authorization_code'', JString (ctq_AuthorizationCode r))]"

record ChargeTransactionResp =
  ctr_Data :: "InitializedTransaction option"

definition ChargeTransactionResp_set_field ::
  "string \<Rightarrow> json \<Rightarrow> ChargeTransactionResp \<Rightarrow> ChargeTransactionResp \<times> error option" where
  "ChargeTransactionResp_set_field key v r =
     (case find_field [''Data''] key of
        None \<Rightarrow> (r, None)
      | Some f \<Rightarrow>
          (case store_pointer (store_struct InitializedTransaction_set_field) InitializedTransaction_zero v (ctr_Data r) of
             (x, e) \<Rightarrow> (r\<lparr>ctr_Data := x\<rparr>, e)))"

record Authorization =
  AuthorizationCode :: string
  Bin :: string
  Last4 :: string
  ExpMonth :: string
  ExpYear :: string
  Channel :: string
  CardType :: string
  Bank :: string
  CountryCode :: string
  Brand :: string
  Reusable :: bool
  Signature :: string
  AccountName :: string

definition Authorization_zero :: Authorization where
  "Authorization_zero =
     \<lparr>AuthorizationCode = [], Bin = [], Last4 = [], ExpMonth = [], ExpYear = [], Channel = [],
      CardType = [], Bank = [], CountryCode = [], Brand = [], Reusable = False, Signature = [],
      AccountName = []\<rparr>"

definition Authorization_names :: "string list" where
  "Authorization_names =
     [''authorization_code'', ''bin'', ''last4'', ''exp_month'', ''exp_year'', ''channel'',
      ''card_type'', ''bank'', ''country_code'', ''brand'', ''reusable'', ''signature'',
      ''account_name'']"

definition Authorization_set_field ::
  "string \<Rightarrow> json \<Rightarrow> Authorization \<Rightarrow> Authorization \<times> error option" where
  "Authorization_set_field key v a =
     (case find_field Authorization_names key of
        None \<Rightarrow> (a, None)
      | Some f \<Rightarrow>
          if f = ''authorization_code'' then
            (case store_string v (AuthorizationCode a) of (x, e) \<Rightarrow> (a\<lparr>AuthorizationCode := x\<rparr>, e))
          else if f = ''bin'' then (case store_string v (Bin a) of (x, e) \<Rightarrow> (a\<lparr>Bin := x\<rparr>, e))
          else if f = ''last4'' then (case store_string v (Last4 a) of (x, e) \<Rightarrow> (a\<lparr>Last4 := x\<rparr>, e))
          else if f = ''exp_month'' then (case store_string v (ExpMonth a) of (x, e) \<Rightarrow> (a\<lparr>ExpMonth := x\<rparr>, e))
          else if f = ''exp_year'' then (case store_string v (ExpYear a) of (x, e) \<Rightarrow> (a\<lparr>ExpYear := x\<rparr>, e))
          else if f = ''channel'' then (case store_string v (Channel a) of (x, e) \<Rightarrow> (a\<lparr>Channel := x\<rparr>, e))
          else if f = ''card_type'' then (case store_string v (CardType a) of (x, e) \<Rightarrow> (a\<lparr>CardType := x\<rparr>, e))
          else if f = ''bank'' then (case store_string v (Bank a) of (x, e) \<Rightarrow> (a\<lparr>Bank := x\<rparr>, e))
          else if f = ''country_code'' then
            (case store_string v (CountryCode a) of (x, e) \<Rightarrow> (a\<lparr>CountryCode := x\<rparr>, e))
          else if f = ''brand'' then (case store_string v (Brand a) of (x, e) \<Rightarrow> (a\<lparr>Brand := x\<rparr>, e))
          else if f = ''reusable'' then (case store_bool v (Reusable a) of (x, e) \<Rightarrow> (a\<lparr>Reusable := x\<rparr>, e))
          else if f = ''signature'' then (case store_string v (Signature a) of (x, e) \<Rightarrow> (a\<lparr>Signature := x\<rparr>, e))
          else (case store_string v (AccountName a) of (x, e) \<Rightarrow> (a\<lparr>AccountName := x\<rparr>, e)))"

record VerifiedTransaction =
  vt_Id :: int
  vt_Reference :: string
  Status :: string
  vt_Authorization :: "Authorization option"

definition VerifiedTransaction_zero :: VerifiedTransaction where
  "VerifiedTransaction_zero = \<lparr>vt_Id = 0, vt_Reference = [], Status = [], vt_Authorization = None\<rparr>"

definition VerifiedTransaction_set_field ::
  "string \<Rightarrow> json \<Rightarrow> VerifiedTransaction \<Rightarrow> VerifiedTransaction \<times> error option" where
  "VerifiedTransaction_set_field key v t =
     (case find_field [''id'', ''reference'', ''status'', ''authorization''] key of
        None \<Rightarrow> (t, None)
      | Some f \<Rightarrow>
          if f = ''id'' then (case store_int v (vt_Id t) of (x, e) \<Rightarrow> (t\<lparr>vt_Id := x\<rparr>, e))
          else if f = ''reference'' then
            (case store_string v (vt_Reference t) of (x, e) \<Rightarrow> (t\<lparr>vt_Reference := x\<rparr>, e))
          else if f = ''status'' then (case store_string v (Status t) of (x, e) \<Rightarrow> (t\<lparr>Status := x\<rparr>, e))
          else (case store_pointer (store_struct Authorization_set_field) Authorization_zero v (vt_Authorization t) of
                  (x, e) \<Rightarrow> (t\<lparr>vt_Authorization := x\<rparr>, e)))"

record VerifiedTransactionResp =
  vtr_Data :: "VerifiedTransaction option"

definition VerifiedTransactionResp_set_field ::
  "string \<Rightarrow> json \<Rightarrow> VerifiedTransactionResp \<Rightarrow> VerifiedTransactionResp \<times> error option" where
  "VerifiedTransactionResp_set_field key v r =
     (case find_field [''Data''] key of
        None \<Rightarrow> (r, None)
      | Some f \<Rightarrow>
          (case store_pointer (store_struct VerifiedTransaction_set_field) VerifiedTransaction_zero v (vtr_Data r) of
             (x, e) \<Rightarrow> (r\<lparr>vtr_Data := x\<rparr>, e)))"

definition InitializedTransaction_json :: "InitializedTransaction \<Rightarrow> json" where
  "InitializedTransaction_json t =
     JObject [(''reference'', JString (Reference t)),
              (''authorization_url'', JString (AuthorizationUrl t)),
              (''access_code'', JString (AccessCode t))]"

definition Authorization_json :: "Authorization \<Rightarrow> json" where
  "Authorization_json a =
     JObject [(''authorization_code'', JString (AuthorizationCode a)),
              (''bin'', JString (Bin a)),
              (''last4'', JString (Last4 a)),
              (''exp_month'', JString (ExpMonth a)),
              (''exp_year'', JString (ExpYear a)),
              (''channel'', JString (Channel a)),
              (''card_type'', JString (CardType a)),
              (''bank'', JString (Bank a)),
              (''country_code'', JString (CountryCode a)),
              (''brand'', JString (Brand a)),
              (''reusable'', JBool (Reusable a)),
              (''signature'', JString (Signature a)),
              (''account_name'', JString (AccountName a))]"

definition VerifiedTransaction_json :: "VerifiedTransaction \<Rightarrow> json" where
  "VerifiedTransaction_json t =
     JObject [(''id'', JNumber (Sprintf_d (vt_Id t))),
              (''reference'', JString (vt_Reference t)),
              (''status'', JString (Status t)),
              (''authorization'',
                 (case vt_Authorization t of None \<Rightarrow> JNull | Some a \<Rightarrow> Authorization_json a))]"

text \<open>The envelope of the remote API: the payload is the \<open>data\<close> member of an object.\<close>

definition envelope :: "json \<Rightarrow> json" where
  "envelope v = JObject [(''data'', v)]"

definition int64_range :: "int \<Rightarrow> bool" where
  "int64_range i = (- (2 ^ 63) \<le> i \<and> i < 2 ^ 63)"

section \<open>The HTTP request and the transport\<close>

text \<open>
  \<open>url.Parse\<close>, as \<open>http.NewRequestWithContext\<close> calls it.  Every URL of this package
  starts with \<open>https://api.paystack.co/\<close>, whose scheme and authority \<open>url.Parse\<close>
  accepts; URLs on another host are outside the model.  What follows the host is cut
  at the first \<open>#\<close> into the fragment and at the first \<open>?\<close> into the query, which is kept
  as it is.  The path and the fragment are percent-decoded; their raw text is kept
  beside the decoded one where the default encoding of the decoded text differs from
  it.  \<open>url.Parse\<close> refuses an ASCII control character before the fragment, and a \<open>%\<close>
  that is not followed by two hexadecimal digits in the path or in the fragment.
\<close>

datatype encoding = encodePath | encodeFragment

definition shouldEscape :: "char \<Rightarrow> encoding \<Rightarrow> bool" where
  "shouldEscape c mode =
     (if (97 \<le> (of_char c :: nat) \<and> (of_char c :: nat) \<le> 122)
         \<or> (65 \<le> (of_char c :: nat) \<and> (of_char c :: nat) \<le> 90)
         \<or> (48 \<le> (of_char c :: nat) \<and> (of_char c :: nat) \<le> 57) then False
      else if c \<in> set ''-_.~'' then False
      else if c \<in> set ''$&+,/:;=?@'' then
        (case mode of encodePath \<Rightarrow> c = CHR ''?'' | encodeFragment \<Rightarrow> False)
      else if mode = encodeFragment \<and> c \<in> set ''!()*'' then False
      else True)"

definition upperhex :: "nat \<Rightarrow> char" where
  "upperhex d = ''0123456789ABCDEF'' ! d"

fun escape :: "string \<Rightarrow> encoding \<Rightarrow> string" where
  "escape [] mode = []"
| "escape (c # cs) mode =
     (if shouldEscape c mode
      then CHR ''%'' # upperhex ((of_char c :: nat) div 16) # upperhex ((of_char c :: nat) mod 16)
             # escape cs mode
      else c # escape cs mode)"

text \<open>The first \<open>%\<close> that does not start a percent escape, with the two characters after it.\<close>

fun bad_escape :: "string \<Rightarrow> string option" where
  "bad_escape [] = None"
| "bad_escape (c # cs) =
     (if c = CHR ''%'' then
        (case cs of
           h1 # h2 # rest \<Rightarrow> if isHex h1 \<and> isHex h2 then bad_escape rest else Some (take 3 (c # cs))
         | _ \<Rightarrow> Some (take 3 (c # cs)))
      else bad_escape cs)"

fun unescape :: "string \<Rightarrow> string" where
  "unescape [] = []"
| "unescape (c # cs) =
     (if c = CHR ''%'' then
        (case cs of
           h1 # h2 # rest \<Rightarrow> char_of (hex_val h1 * 16 + hex_val h2) # unescape rest
         | _ \<Rightarrow> c # cs)
      else c # unescape cs)"


record url =
  Scheme :: string
  Host :: string
  Path :: string
  RawPath :: string
  ForceQuery :: bool
  RawQuery :: string
  Fragment :: string
  RawFragment :: string

definition stringContainsCTLByte :: "string \<Rightarrow> bool" where
  "stringContainsCTLByte s = list_ex (\<lambda>c. (of_char c :: nat) < 32 \<or> (of_char c :: nat) = 127) s"

definition api_host :: string where
  "api_host = ''https://api.paystack.co''"

text \<open>The error of \<open>url.Parse\<close>, if any, and the URL it returns otherwise.\<close>

definition url_Parse :: "string \<Rightarrow> error option" where
  "url_Parse rawURL =
     (let u = takeWhile (\<lambda>c. c \<noteq> CHR ''#'') rawURL;
          frag = drop (Suc (length u)) rawURL;
          rest = takeWhile (\<lambda>c. c \<noteq> CHR ''?'') u;
          p = drop (length api_host) rest
      in if stringContainsCTLByte u then Some (UrlError ''parse'' u InvalidControlCharacter)
         else if take (Suc (length api_host)) rest \<noteq> api_host @ ''/'' then Some (UrlError ''parse'' u OtherHost)
         else (case bad_escape p of
                 Some s \<Rightarrow> Some (UrlError ''parse'' u (EscapeError s))
               | None \<Rightarrow>
                   (case bad_escape frag of
                      Some s \<Rightarrow> Some (UrlError ''parse'' rawURL (EscapeError s))
                    | None \<Rightarrow> None)))"

definition url_of :: "string \<Rightarrow> url" where
  "url_of rawURL =
     (let u = takeWhile (\<lambda>c. c \<noteq> CHR ''#'') rawURL;
          frag = drop (Suc (length u)) rawURL;
          rest = takeWhile (\<lambda>c. c \<noteq> CHR ''?'') u;
          p = drop (length api_host) rest
      in \<lparr>Scheme = ''https'',
          Host = ''api.paystack.co'',
          Path = unescape p,
          RawPath = (if escape (unescape p) encodePath = p then [] else p),
          ForceQuery = (u = rest @ ''?''),
          RawQuery = drop (Suc (length rest)) u,
          Fragment = unescape frag,
          RawFragment = (if escape (unescape frag) encodeFragment = frag then [] else frag)\<rparr>)"

text \<open>The URL on the API host that has the given path, no query and no fragment.\<close>

definition api_url :: "string \<Rightarrow> url" where
  "api_url path =
     \<lparr>Scheme = ''https'', Host = ''api.paystack.co'', Path = path, RawPath = [],
      ForceQuery = False, RawQuery = [], Fragment = [], RawFragment = []\<rparr>"




text \<open>
  A request as \<open>http.NewRequestWithContext\<close> builds it, and the response as the package
  reads it: the status code and the outcome of \<open>io.ReadAll\<close> on the body.  The transport
  (\<open>http.DefaultClient.Do\<close> and the remote service) is a parameter of every operation.
\<close>

record http_request =
  Method :: string
  URL :: url
  Header :: "(string \<times> string list) list"
  Body :: string

record http_response =
  StatusCode :: int
  RespBody :: "error + string"

type_synonym transport = "http_request \<Rightarrow> error + http_response"

text \<open>
  Test doubles.  \<open>stub\<close> answers every request alike, \<open>failing\<close> fails on every request,
  and \<open>expecting req Do\<close> passes the request \<open>req\<close> on to \<open>Do\<close> and fails on every other
  request.
\<close>

definition stub :: "int \<Rightarrow> string \<Rightarrow> transport" where
  "stub status body req = Inr \<lparr>StatusCode = status, RespBody = Inr body\<rparr>"

definition failing :: "error \<Rightarrow> transport" where
  "failing err req = Inl err"

definition expecting :: "http_request \<Rightarrow> transport \<Rightarrow> transport" where
  "expecting expected Do req =
     (if req = expected then Do req else Inl (TransportError ''unexpected request''))"

text \<open>
  \<open>http.NewRequestWithContext\<close> refuses a method that is not a token and a URL that
  \<open>url.Parse\<close> refuses.  Its context is the one the caller of the operation passes, which
  is not nil.
\<close>

definition isTokenRune :: "char \<Rightarrow> bool" where
  "isTokenRune c =
     (isDigit c
      \<or> (65 \<le> (of_char c :: nat) \<and> (of_char c :: nat) \<le> 90)
      \<or> (97 \<le> (of_char c :: nat) \<and> (of_char c :: nat) \<le> 122)
      \<or> c \<in> set [CHR ''!'', CHR ''#'', CHR ''$'', CHR ''%'', CHR ''&'', CHR 0x27, CHR ''*'', CHR ''+'',
                   CHR ''-'', CHR ''.'', CHR ''^'', CHR ''_'', CHR 0x60, CHR ''|'', CHR ''~''])"

definition validMethod :: "string \<Rightarrow> bool" where
  "validMethod m = (m \<noteq> [] \<and> list_all isTokenRune m)"

definition NewRequestWithContext :: "string \<Rightarrow> string \<Rightarrow> string \<Rightarrow> error + http_request" where
  "NewRequestWithContext method url body =
     (let method = (if method = [] then ''GET'' else method) in
      if \<not> validMethod method then Inl (MethodError method)
      else (case url_Parse url of
              Some err \<Rightarrow> Inl err
            | None \<Rightarrow> Inr \<lparr>Method = method, URL = url_of url, Header = [], Body = body\<rparr>))"

definition Header_Set :: "(string \<times> string list) list \<Rightarrow> string \<Rightarrow> string \<Rightarrow> (string \<times> string list) list" where
  "Header_Set h key v = (key, [v]) # filter (\<lambda>kv. fst kv \<noteq> key) h"

definition Header_Get :: "(string \<times> string list) list \<Rightarrow> string \<Rightarrow> string" where
  "Header_Get h key = (case map_of h key of Some (v # _) \<Rightarrow> v | _ \<Rightarrow> [])"

text \<open>
  A last test double, which behaves as the remote service does on a missing credential:
  it passes on to \<open>Do\<close> the requests whose \<open>Authorization\<close> header is \<open>Bearer\<close>, a space
  and the given secret, and fails on every other request.
\<close>

definition authorized_only :: "string \<Rightarrow> transport \<Rightarrow> transport" where
  "authorized_only s Do req =
     (if Header_Get (Header req) ''Authorization'' = ''Bearer '' @ s then Do req
      else Inl (TransportError ''unauthorized request''))"

section \<open>The dispatcher and the operations\<close>

text \<open>
  \<open>request\<close> has two \<open>any\<close> parameters, which \<open>encoding/json\<close> handles by the dynamic
  type; here the encoder of the request payload and the decoder into the response
  shape are passed along with them.  Besides the error, \<open>request\<close> returns the
  response shape as \<open>json.Unmarshal\<close> left it (Go mutates it in place) and the list of
  the requests handed to the transport.
\<close>

definition request ::
  "Client \<Rightarrow> transport \<Rightarrow> ('q \<Rightarrow> error + string) \<Rightarrow> (string \<Rightarrow> 'r \<Rightarrow> error option \<times> 'r) \<Rightarrow>
   string \<Rightarrow> string \<Rightarrow> 'q option \<Rightarrow> 'r option \<Rightarrow> error option \<times> 'r option \<times> http_request list" where
  "request c Do marshal unmarshal url method req_body resp_body =
     (case (case req_body of None \<Rightarrow> Inr [] | Some q \<Rightarrow> marshal q) of
        Inl err \<Rightarrow> (Some err, resp_body, [])
      | Inr body \<Rightarrow>
          (case NewRequestWithContext method url body of
             Inl err \<Rightarrow> (Some err, resp_body, [])
           | Inr req0 \<Rightarrow>
               (let req = req0\<lparr>Header := Header_Set (Header req0) ''Authorization'' (''Bearer '' @ secret c)\<rparr> in
                case Do req of
                  Inl err \<Rightarrow> (Some err, resp_body, [req])
                | Inr resp \<Rightarrow>
                    (case RespBody resp of
                       Inl err \<Rightarrow> (Some err, resp_body, [req])
                     | Inr resBody \<Rightarrow>
                         if StatusCode resp \<noteq> 200 then (Some (Errorf resBody), resp_body, [req])
                         else
                           (case resp_body of
                              None \<Rightarrow> (None, None, [req])
                            | Some dst \<Rightarrow>
                                (case unmarshal resBody dst of
                                   (Some err, dst') \<Rightarrow> (Some err, Some dst', [req])
                                 | (None, dst') \<Rightarrow> (None, Some dst', [req])))))))"

definition no_marshal :: "unit \<Rightarrow> error + string" where
  "no_marshal u = Inr []"

definition no_unmarshal :: "string \<Rightarrow> unit \<Rightarrow> error option \<times> unit" where
  "no_unmarshal data u = (None, u)"

text \<open>
  The operations are methods on a pointer to the client.  Each returns Go's result
  (for the four data-returning operations the pair of result pointer and error), the
  requests handed to the transport, and the client as the call leaves it.  \<open>amount\<close>
  is an \<open>int32\<close>.
\<close>

definition ValidateCredentials :: "Client \<Rightarrow> transport \<Rightarrow> error option \<times> http_request list \<times> Client" where
  "ValidateCredentials c Do =
     (let url = ''https://api.paystack.co/customer'' in
      case request c Do no_marshal no_unmarshal url ''GET'' None None of
        (err, _, sent) \<Rightarrow> (err, sent, c))"

definition CreateCustomer ::
  "Client \<Rightarrow> transport \<Rightarrow> string \<Rightarrow> (Customer option \<times> error option) \<times> http_request list \<times> Client" where
  "CreateCustomer c Do email =
     (let url = ''https://api.paystack.co/customer'';
          reqBody = \<lparr>Id = 0, Email = email, CustomerCode = []\<rparr>;
          respBody = \<lparr>ccr_Data = None\<rparr>
      in case request c Do (json_Marshal Customer_json)
                (json_Unmarshal (store_struct CreateCustomerResp_set_field))
                url ''POST'' (Some reqBody) (Some respBody) of
           (Some err, _, sent) \<Rightarrow> ((None, Some err), sent, c)
         | (None, respBody', sent) \<Rightarrow>
             ((ccr_Data (case respBody' of Some r \<Rightarrow> r | None \<Rightarrow> respBody), None), sent, c))"

definition InitializeTransaction ::
  "Client \<Rightarrow> transport \<Rightarrow> string \<Rightarrow> 32 word \<Rightarrow>
   (InitializedTransaction option \<times> error option) \<times> http_request list \<times> Client" where
  "InitializeTransaction c Do email amount =
     (let url = ''https://api.paystack.co/transaction/initialize'';
          reqBody = \<lparr>itq_Email = email, itq_Amount = Sprintf_d (sint amount)\<rparr>;
          respBody = \<lparr>itr_Data = None\<rparr>
      in case request c Do (json_Marshal InitTransactionReq_json)
                (json_Unmarshal (store_struct InitTransactionResp_set_field))
                url ''POST'' (Some reqBody) (Some respBody) of
           (Some err, _, sent) \<Rightarrow> ((None, Some err), sent, c)
         | (None, respBody', sent) \<Rightarrow>
             ((itr_Data (case respBody' of Some r \<Rightarrow> r | None \<Rightarrow> respBody), None), sent, c))"

definition ChargeAuthorization ::
  "Client \<Rightarrow> transport \<Rightarrow> string \<Rightarrow> 32 word \<Rightarrow> string \<Rightarrow>
   (InitializedTransaction option \<times> error option) \<times> http_request list \<times> Client" where
  "ChargeAuthorization c Do email amount authCode =
     (let url = ''https://api.paystack.co/transaction/charge_authorization'';
          reqBody = \<lparr>ctq_Email = email, ctq_Amount = Sprintf_d (sint amount),
                     ctq_AuthorizationCode = authCode\<rparr>;
          respBody = \<lparr>ctr_Data = None\<rparr>
      in case request c Do (json_Marshal ChargeTransactionReq_json)
                (json_Unmarshal (store_struct ChargeTransactionResp_set_field))
                url ''POST'' (Some reqBody) (Some respBody) of
           (Some err, _, sent) \<Rightarrow> ((None, Some err), sent, c)
         | (None, respBody', sent) \<Rightarrow>
             ((ctr_Data (case respBody' of Some r \<Rightarrow> r | None \<Rightarrow> respBody), None), sent, c))"

definition VerifyTransaction ::
  "Client \<Rightarrow> transport \<Rightarrow> string \<Rightarrow>
   (VerifiedTransaction option \<times> error option) \<times> http_request list \<times> Client" where
  "VerifyTransaction c Do ref =
     (let url = ''https://api.paystack.co/transaction/verify/'' @ ref;
          resp = \<lparr>vtr_Data = None\<rparr>
      in case request c Do no_marshal
                (json_Unmarshal (store_struct VerifiedTransactionResp_set_field))
                url ''GET'' None (Some resp) of
           (Some err, _, sent) \<Rightarrow> ((None, Some err), sent, c)
         | (None, resp', sent) \<Rightarrow>
             ((vtr_Data (case resp' of Some r \<Rightarrow> r | None \<Rightarrow> resp), None), sent, c))"

section \<open>Properties\<close>

lemmas url_eval = NewRequestWithContext_def validMethod_def isTokenRune_def isDigit_def isHex_def
  url_Parse_def url_of_def api_url_def api_host_def stringContainsCTLByte_def shouldEscape_def

lemmas verify_request = NewRequestWithContext_def validMethod_def isTokenRune_def isDigit_def

lemmas parse_eval = json_parse_def isSpace_def isDigit_def dquote_def bslash_def number_len_def
  push_frame_def maxNestingDepth_def

lemma NewRequest_customer_POST:
  "NewRequestWithContext ''POST'' ''https://api.paystack.co/customer'' b =
     Inr \<lparr>Method = ''POST'', URL = api_url ''/customer'', Header = [], Body = b\<rparr>"
  by (simp add: url_eval)

lemma NewRequest_customer_GET:
  "NewRequestWithContext ''GET'' ''https://api.paystack.co/customer'' b =
     Inr \<lparr>Method = ''GET'', URL = api_url ''/customer'', Header = [], Body = b\<rparr>"
  by (simp add: url_eval)

lemma NewRequest_initialize:
  "NewRequestWithContext ''POST'' ''https://api.paystack.co/transaction/initialize'' b =
     Inr \<lparr>Method = ''POST'', URL = api_url ''/transaction/initialize'', Header = [], Body = b\<rparr>"
  by (simp add: url_eval)

lemma NewRequest_charge:
  "NewRequestWithContext ''POST'' ''https://api.paystack.co/transaction/charge_authorization'' b =
     Inr \<lparr>Method = ''POST'', URL = api_url ''/transaction/charge_authorization'', Header = [], Body = b\<rparr>"
  by (simp add: url_eval)

lemmas new_request = NewRequest_customer_POST NewRequest_customer_GET NewRequest_initialize
  NewRequest_charge

lemma NewRequest_Header:
  "NewRequestWithContext meth url body = Inr req0 \<Longrightarrow> Header req0 = []"
  by (auto simp: NewRequestWithContext_def Let_def split: if_splits option.splits)

lemma Header_Get_single [simp]: "Header_Get [(k, [v])] k = v"
  by (simp add: Header_Get_def)

lemma quote_empty: "quote [] = [dquote, dquote]"
  by (simp add: quote_def)

text \<open>The requests of the four operations with a fixed URL.\<close>

lemma request_fixed:
  assumes "(case q of None \<Rightarrow> Inr [] | Some x \<Rightarrow> m x) = Inr body"
    and "NewRequestWithContext meth url body = Inr \<lparr>Method = meth', URL = u, Header = [], Body = body\<rparr>"
  shows "request c Do m um url meth q r =
     (let req = \<lparr>Method = meth', URL = u, Header = [(''Authorization'', [''Bearer '' @ secret c])],
                 Body = body\<rparr>
      in case Do req of
           Inl err \<Rightarrow> (Some err, r, [req])
         | Inr resp \<Rightarrow>
             (case RespBody resp of
                Inl err \<Rightarrow> (Some err, r, [req])
              | Inr resBody \<Rightarrow>
                  if StatusCode resp \<noteq> 200 then (Some (Errorf resBody), r, [req])
                  else (case r of
                          None \<Rightarrow> (None, None, [req])
                        | Some dst \<Rightarrow>
                            (case um resBody dst of
                               (Some err, dst') \<Rightarrow> (Some err, Some dst', [req])
                             | (None, dst') \<Rightarrow> (None, Some dst', [req])))))"
  by (simp add: request_def assms Header_Set_def Let_def)


text \<open>
  C1.  The claim fails on the code at every email; here at \<open>a@b.com\<close>.  The payload of
  \<open>CreateCustomer\<close> is a \<open>Customer\<close> struct, none of whose fields is omitted when empty,
  so the body that reaches the transport has the three members \<open>id\<close>, \<open>email\<close> and
  \<open>customer_code\<close>.  A transport that expects the body with the member \<open>email\<close> alone
  sees another request; one that expects the body with the three members is served.
\<close>

theorem CreateCustomer_body_has_three_members:
  \<open>CreateCustomer \<lparr>secret = ''sk_test_123''\<rparr>
     (expecting \<lparr>Method = ''POST'', URL = api_url ''/customer'',
                  Header = [(''Authorization'', [''Bearer sk_test_123''])],
                  Body = ''{"email":"a@b.com"}''\<rparr>
        (stub 200 ''{"data":{"id":1,"email":"a@b.com","customer_code":"CUS_xyz"}}''))
     ''a@b.com''
   = ((None, Some (TransportError ''unexpected request'')),
      [\<lparr>Method = ''POST'', URL = api_url ''/customer'',
        Header = [(''Authorization'', [''Bearer sk_test_123''])],
        Body = ''{"id":0,"email":"a@b.com","customer_code":""}''\<rparr>],
      \<lparr>secret = ''sk_test_123''\<rparr>) \<and>
   CreateCustomer \<lparr>secret = ''sk_test_123''\<rparr>
     (expecting \<lparr>Method = ''POST'', URL = api_url ''/customer'',
                  Header = [(''Authorization'', [''Bearer sk_test_123''])],
                  Body = ''{"id":0,"email":"a@b.com","customer_code":""}''\<rparr>
        (stub 200 ''{"data":{"id":1,"email":"a@b.com","customer_code":"CUS_xyz"}}''))
     ''a@b.com''
   = ((Some \<lparr>Id = 1, Email = ''a@b.com'', CustomerCode = ''CUS_xyz''\<rparr>, None),
      [\<lparr>Method = ''POST'', URL = api_url ''/customer'',
        Header = [(''Authorization'', [''Bearer sk_test_123''])],
        Body = ''{"id":0,"email":"a@b.com","customer_code":""}''\<rparr>],
      \<lparr>secret = ''sk_test_123''\<rparr>) \<and>
   member_names ''{"id":0,"email":"a@b.com","customer_code":""}''
     = Some [''id'', ''email'', ''customer_code'']\<close>
proof -
  have b: \<open>json_Marshal Customer_json \<lparr>Id = 0, Email = ''a@b.com'', CustomerCode = []\<rparr>
             = Inr ''{"id":0,"email":"a@b.com","customer_code":""}''\<close>
    by (simp add: json_Marshal_def Customer_json_def Sprintf_d_def digit_char_def quote_def
          escape_byte_def dquote_def bslash_def)
  have d: \<open>json_Unmarshal (store_struct CreateCustomerResp_set_field)
              ''{"data":{"id":1,"email":"a@b.com","customer_code":"CUS_xyz"}}'' \<lparr>ccr_Data = None\<rparr>
            = (None, \<lparr>ccr_Data = Some \<lparr>Id = 1, Email = ''a@b.com'', CustomerCode = ''CUS_xyz''\<rparr>\<rparr>)\<close>
    by (simp add: json_Unmarshal_def parse_eval store_struct_def CreateCustomerResp_set_field_def
          find_field_def store_pointer_def Customer_set_field_def Customer_zero_def store_int_def
          store_string_def ParseInt64_def first_error_def hex_val_def)
  have b': \<open>(case Some \<lparr>Id = 0, Email = ''a@b.com'', CustomerCode = []\<rparr> of
               None \<Rightarrow> Inr [] | Some x \<Rightarrow> json_Marshal Customer_json x)
             = Inr ''{"id":0,"email":"a@b.com","customer_code":""}''\<close>
    using b by simp
  have m: \<open>member_names ''{"id":0,"email":"a@b.com","customer_code":""}''
             = Some [''id'', ''email'', ''customer_code'']\<close>
    by (simp add: member_names_def parse_eval)
  have 1: \<open>CreateCustomer \<lparr>secret = ''sk_test_123''\<rparr>
     (expecting \<lparr>Method = ''POST'', URL = api_url ''/customer'',
                  Header = [(''Authorization'', [''Bearer sk_test_123''])],
                  Body = ''{"email":"a@b.com"}''\<rparr>
        (stub 200 ''{"data":{"id":1,"email":"a@b.com","customer_code":"CUS_xyz"}}''))
     ''a@b.com''
   = ((None, Some (TransportError ''unexpected request'')),
      [\<lparr>Method = ''POST'', URL = api_url ''/customer'',
        Header = [(''Authorization'', [''Bearer sk_test_123''])],
        Body = ''{"id":0,"email":"a@b.com","customer_code":""}''\<rparr>],
      \<lparr>secret = ''sk_test_123''\<rparr>)\<close>
    unfolding CreateCustomer_def Let_def
    by (subst request_fixed [OF b' NewRequest_customer_POST]) (simp add: expecting_def Let_def)
  have 2: \<open>CreateCustomer \<lparr>secret = ''sk_test_123''\<rparr>
     (expecting \<lparr>Method = ''POST'', URL = api_url ''/customer'',
                  Header = [(''Authorization'', [''Bearer sk_test_123''])],
                  Body = ''{"id":0,"email":"a@b.com","customer_code":""}''\<rparr>
        (stub 200 ''{"data":{"id":1,"email":"a@b.com","customer_code":"CUS_xyz"}}''))
     ''a@b.com''
   = ((Some \<lparr>Id = 1, Email = ''a@b.com'', CustomerCode = ''CUS_xyz''\<rparr>, None),
      [\<lparr>Method = ''POST'', URL = api_url ''/customer'',
        Header = [(''Authorization'', [''Bearer sk_test_123''])],
        Body = ''{"id":0,"email":"a@b.com","customer_code":""}''\<rparr>],
      \<lparr>secret = ''sk_test_123''\<rparr>)\<close>
    unfolding CreateCustomer_def Let_def
    by (subst request_fixed [OF b' NewRequest_customer_POST]) (simp add: d expecting_def stub_def Let_def)
  from 1 2 m show ?thesis by blast
qed

lemma request_non_200:
  assumes "\<forall>req. Do req = Inr \<lparr>StatusCode = s, RespBody = Inr b\<rparr>" and "s \<noteq> 200"
    and "request c Do m um url meth q r = (e, r', sent)" and "sent \<noteq> []"
  shows "e = Some (Errorf b) \<and> r' = r"
  using assms(3,4) unfolding request_def
  by (auto simp: assms(1,2) Let_def split: sum.splits option.splits prod.splits if_splits)

text \<open>
  C2.  When the transport answers with a status other than 200 and the body \<open>b\<close>, every
  operation returns the error \<open>Errorf b\<close>, whose message is \<open>b\<close> verbatim, and no result
  (\<open>VerifyTransaction\<close> when its URL is accepted, so that it has a response to look at).
  The dispatcher itself, whatever the decoder and the response shape it is given,
  returns that error whenever it has sent its request and hands the response shape
  back as it received it: the body is not decoded.
\<close>

theorem non_200_returns_body_as_error:
  assumes "\<forall>req. Do req = Inr \<lparr>StatusCode = s, RespBody = Inr b\<rparr>" and "s \<noteq> 200"
  shows "fst (ValidateCredentials c Do) = Some (Errorf b) \<and>
         fst (CreateCustomer c Do email) = (None, Some (Errorf b)) \<and>
         fst (InitializeTransaction c Do email amount) = (None, Some (Errorf b)) \<and>
         fst (ChargeAuthorization c Do email amount authCode) = (None, Some (Errorf b)) \<and>
         (url_Parse (''https://api.paystack.co/transaction/verify/'' @ ref) = None \<longrightarrow>
            fst (VerifyTransaction c Do ref) = (None, Some (Errorf b))) \<and>
         (request c Do m um url meth q r = (e, r', sent) \<and> sent \<noteq> [] \<longrightarrow>
            e = Some (Errorf b) \<and> r' = r)"
proof -
  have 1: "fst (ValidateCredentials c Do) = Some (Errorf b)"
    by (simp add: ValidateCredentials_def request_def new_request assms)
  have 2: "fst (CreateCustomer c Do email) = (None, Some (Errorf b))"
    by (simp add: CreateCustomer_def request_def new_request assms json_Marshal_def)
  have 3: "fst (InitializeTransaction c Do email amount) = (None, Some (Errorf b))"
    by (simp add: InitializeTransaction_def request_def new_request assms json_Marshal_def)
  have 4: "fst (ChargeAuthorization c Do email amount authCode) = (None, Some (Errorf b))"
    by (simp add: ChargeAuthorization_def request_def new_request assms json_Marshal_def)
  have 5: "url_Parse (''https://api.paystack.co/transaction/verify/'' @ ref) = None \<longrightarrow>
            fst (VerifyTransaction c Do ref) = (None, Some (Errorf b))"
    by (simp add: VerifyTransaction_def request_def verify_request assms no_marshal_def)
  have 6: "request c Do m um url meth q r = (e, r', sent) \<and> sent \<noteq> [] \<longrightarrow>
            e = Some (Errorf b) \<and> r' = r"
    using request_non_200 [OF assms] by blast
  from 1 2 3 4 5 6 show ?thesis by blast
qed

theorem non_200_returns_body_as_error_witness:
  \<open>fst (CreateCustomer \<lparr>secret = ''sk_test_123''\<rparr> (stub 401 ''{"message":"invalid key"}'') ''a@b.com'')
     = (None, Some (Errorf ''{"message":"invalid key"}'')) \<and>
   fst (ValidateCredentials \<lparr>secret = ''sk_test_123''\<rparr> (stub 401 ''{"message":"invalid key"}''))
     = Some (Errorf ''{"message":"invalid key"}'') \<and>
   fst (VerifyTransaction \<lparr>secret = ''sk_test_123''\<rparr> (stub 401 ''{"message":"invalid key"}'') ''ref123'')
     = (None, Some (Errorf ''{"message":"invalid key"}''))\<close>
proof -
  have h: \<open>\<forall>req. stub 401 ''{"message":"invalid key"}'' req
                = Inr \<lparr>StatusCode = 401, RespBody = Inr ''{"message":"invalid key"}''\<rparr>\<close>
    by (simp add: stub_def)
  have u: "url_Parse (''https://api.paystack.co/transaction/verify/'' @ ''ref123'') = None"
    by (simp add: url_eval)
  show ?thesis
    using non_200_returns_body_as_error [OF h, where c = "\<lparr>secret = ''sk_test_123''\<rparr>"
        and email = "''a@b.com''" and ref = "''ref123''" and amount = 0 and authCode = "[]"
        and m = no_marshal and um = no_unmarshal and url = "[]" and meth = "[]" and q = None
        and r = None and e = None and r' = None and sent = "[]"] u
    by simp
qed



lemma request_sent:
  "request c Do m um url meth q r = (e, r', sent) \<Longrightarrow>
   \<forall>req\<in>set sent. Header req = [(''Authorization'', [''Bearer '' @ secret c])]"
  by (auto simp: request_def NewRequestWithContext_def Header_Set_def Let_def
       split: sum.splits option.splits if_splits prod.splits)

lemma request_authorized_only:
  "request c (authorized_only (secret c) Do) m um url meth q r = request c Do m um url meth q r"
proof (cases "case q of None \<Rightarrow> Inr [] | Some x \<Rightarrow> m x")
  case (Inl err)
  then show ?thesis by (simp add: request_def)
next
  case (Inr body)
  show ?thesis
  proof (cases "NewRequestWithContext meth url body")
    case (Inl err)
    with Inr show ?thesis by (simp add: request_def)
  next
    case new: (Inr req0)
    then have "Header req0 = []" by (rule NewRequest_Header)
    with Inr new show ?thesis
      by (simp add: request_def authorized_only_def Header_Set_def Let_def)
  qed
qed

lemma client_unchanged:
  "snd (snd (ValidateCredentials c Do)) = c"
  "snd (snd (CreateCustomer c Do email)) = c"
  "snd (snd (InitializeTransaction c Do email amount)) = c"
  "snd (snd (ChargeAuthorization c Do email amount authCode)) = c"
  "snd (snd (VerifyTransaction c Do ref)) = c"
  by (simp_all add: ValidateCredentials_def CreateCustomer_def InitializeTransaction_def
        ChargeAuthorization_def VerifyTransaction_def Let_def split: prod.splits option.splits)

text \<open>
  C7.  Every request that an operation hands to the transport carries exactly one
  header, \<open>Authorization\<close>, whose value is \<open>Bearer\<close>, a space and the secret of the client:
  this holds of the requests each operation reports as sent, and each operation behaves
  against any transport \<open>Do\<close> exactly as against the transport that passes on to \<open>Do\<close> only
  the requests carrying this header and fails on all others, so no other request
  reaches the transport.  Each operation leaves the client as it found it, so the
  secret of later requests is the same.  For a client that \<open>NewClient\<close> returned the
  secret is the credential read at construction.  The same holds of every call of the
  dispatcher.
\<close>

theorem requests_carry_bearer_secret:
  "(\<forall>req \<in> set (fst (snd (ValidateCredentials c Do))).
       Header req = [(''Authorization'', [''Bearer '' @ secret c])]
     \<and> Header_Get (Header req) ''Authorization'' = ''Bearer '' @ secret c) \<and>
   ValidateCredentials c (authorized_only (secret c) Do) = ValidateCredentials c Do \<and>
   snd (snd (ValidateCredentials c Do)) = c \<and>
   (\<forall>req \<in> set (fst (snd (CreateCustomer c Do email))).
       Header req = [(''Authorization'', [''Bearer '' @ secret c])]
     \<and> Header_Get (Header req) ''Authorization'' = ''Bearer '' @ secret c) \<and>
   CreateCustomer c (authorized_only (secret c) Do) email = CreateCustomer c Do email \<and>
   snd (snd (CreateCustomer c Do email)) = c \<and>
   (\<forall>req \<in> set (fst (snd (InitializeTransaction c Do email amount))).
       Header req = [(''Authorization'', [''Bearer '' @ secret c])]
     \<and> Header_Get (Header req) ''Authorization'' = ''Bearer '' @ secret c) \<and>
   InitializeTransaction c (authorized_only (secret c) Do) email amount
     = InitializeTransaction c Do email amount \<and>
   snd (snd (InitializeTransaction c Do email amount)) = c \<and>
   (\<forall>req \<in> set (fst (snd (ChargeAuthorization c Do email amount authCode))).
       Header req = [(''Authorization'', [''Bearer '' @ secret c])]
     \<and> Header_Get (Header req) ''Authorization'' = ''Bearer '' @ secret c) \<and>
   ChargeAuthorization c (authorized_only (secret c) Do) email amount authCode
     = ChargeAuthorization c Do email amount authCode \<and>
   snd (snd (ChargeAuthorization c Do email amount authCode)) = c \<and>
   (\<forall>req \<in> set (fst (snd (VerifyTransaction c Do ref))).
       Header req = [(''Authorization'', [''Bearer '' @ secret c])]
     \<and> Header_Get (Header req) ''Authorization'' = ''Bearer '' @ secret c) \<and>
   VerifyTransaction c (authorized_only (secret c) Do) ref = VerifyTransaction c Do ref \<and>
   snd (snd (VerifyTransaction c Do ref)) = c \<and>
   (\<forall>req \<in> set (snd (snd (request c Do m um url meth q r))).
       Header req = [(''Authorization'', [''Bearer '' @ secret c])]
     \<and> Header_Get (Header req) ''Authorization'' = ''Bearer '' @ secret c) \<and>
   request c (authorized_only (secret c) Do) m um url meth q r = request c Do m um url meth q r \<and>
   (NewClient env = Returned c \<longrightarrow> secret c = Getenv env ''PAYSTACK_SECRET'' \<and> secret c \<noteq> [])"
proof -
  have R: "\<forall>req \<in> set (snd (snd (request c Do m' um' url' meth' q' r'))).
       Header req = [(''Authorization'', [''Bearer '' @ secret c])]
     \<and> Header_Get (Header req) ''Authorization'' = ''Bearer '' @ secret c"
    for m' :: "'x \<Rightarrow> error + string" and um' :: "string \<Rightarrow> 'y \<Rightarrow> error option \<times> 'y"
      and url' meth' q' r'
    using request_sent [of c Do m' um' url' meth' q' r']
    by (cases "request c Do m' um' url' meth' q' r'") auto
  have 1: "\<forall>req \<in> set (fst (snd (ValidateCredentials c Do))).
       Header req = [(''Authorization'', [''Bearer '' @ secret c])]
     \<and> Header_Get (Header req) ''Authorization'' = ''Bearer '' @ secret c"
    using R [of no_marshal no_unmarshal "''https://api.paystack.co/customer''" "''GET''" None None]
    by (auto simp: ValidateCredentials_def split: prod.splits)
  have 2: "\<forall>req \<in> set (fst (snd (CreateCustomer c Do email))).
       Header req = [(''Authorization'', [''Bearer '' @ secret c])]
     \<and> Header_Get (Header req) ''Authorization'' = ''Bearer '' @ secret c"
    using R [of "json_Marshal Customer_json"
                "json_Unmarshal (store_struct CreateCustomerResp_set_field)"
                "''https://api.paystack.co/customer''" "''POST''"
                "Some \<lparr>Id = 0, Email = email, CustomerCode = []\<rparr>"
                "Some \<lparr>ccr_Data = None\<rparr>"]
    unfolding CreateCustomer_def Let_def
    by (auto split: prod.splits option.splits)
  have 3: "\<forall>req \<in> set (fst (snd (InitializeTransaction c Do email amount))).
       Header req = [(''Authorization'', [''Bearer '' @ secret c])]
     \<and> Header_Get (Header req) ''Authorization'' = ''Bearer '' @ secret c"
    using R [of "json_Marshal InitTransactionReq_json"
                "json_Unmarshal (store_struct InitTransactionResp_set_field)"
                "''https://api.paystack.co/transaction/initialize''" "''POST''"
                "Some \<lparr>itq_Email = email, itq_Amount = Sprintf_d (sint amount)\<rparr>"
                "Some \<lparr>itr_Data = None\<rparr>"]
    unfolding InitializeTransaction_def Let_def
    by (auto split: prod.splits option.splits)
  have 4: "\<forall>req \<in> set (fst (snd (ChargeAuthorization c Do email amount authCode))).
       Header req = [(''Authorization'', [''Bearer '' @ secret c])]
     \<and> Header_Get (Header req) ''Authorization'' = ''Bearer '' @ secret c"
    using R [of "json_Marshal ChargeTransactionReq_json"
                "json_Unmarshal (store_struct ChargeTransactionResp_set_field)"
                "''https://api.paystack.co/transaction/charge_authorization''" "''POST''"
                "Some \<lparr>ctq_Email = email, ctq_Amount = Sprintf_d (sint amount),
                        ctq_AuthorizationCode = authCode\<rparr>"
                "Some \<lparr>ctr_Data = None\<rparr>"]
    unfolding ChargeAuthorization_def Let_def
    by (auto split: prod.splits option.splits)
  have 5: "\<forall>req \<in> set (fst (snd (VerifyTransaction c Do ref))).
       Header req = [(''Authorization'', [''Bearer '' @ secret c])]
     \<and> Header_Get (Header req) ''Authorization'' = ''Bearer '' @ secret c"
    using R [of no_marshal "json_Unmarshal (store_struct VerifiedTransactionResp_set_field)"
                "''https://api.paystack.co/transaction/verify/'' @ ref" "''GET''" None
                "Some \<lparr>vtr_Data = None\<rparr>"]
    unfolding VerifyTransaction_def Let_def
    by (auto split: prod.splits option.splits)
  have 6: "NewClient env = Returned c \<longrightarrow> secret c = Getenv env ''PAYSTACK_SECRET'' \<and> secret c \<noteq> []"
    by (auto simp: NewClient_def Let_def split: if_splits)
  have 7: "ValidateCredentials c (authorized_only (secret c) Do) = ValidateCredentials c Do"
    "CreateCustomer c (authorized_only (secret c) Do) email = CreateCustomer c Do email"
    "InitializeTransaction c (authorized_only (secret c) Do) email amount
       = InitializeTransaction c Do email amount"
    "ChargeAuthorization c (authorized_only (secret c) Do) email amount authCode
       = ChargeAuthorization c Do email amount authCode"
    "VerifyTransaction c (authorized_only (secret c) Do) ref = VerifyTransaction c Do ref"
    by (simp_all only: ValidateCredentials_def CreateCustomer_def InitializeTransaction_def
          ChargeAuthorization_def VerifyTransaction_def request_authorized_only)
  from 1 2 3 4 5 6 7 R [of m um url meth q r] client_unchanged [of c Do]
    request_authorized_only [of c Do m um url meth q r]
  show ?thesis by blast
qed

theorem requests_carry_bearer_secret_witness:
  "fst (snd (VerifyTransaction \<lparr>secret = ''sk_test_123''\<rparr> (stub 200 []) ''ref123'')) \<noteq> [] \<and>
   Header_Get (Header (hd (fst (snd (VerifyTransaction \<lparr>secret = ''sk_test_123''\<rparr> (stub 200 []) ''ref123'')))))
     ''Authorization'' = ''Bearer sk_test_123'' \<and>
   snd (snd (VerifyTransaction \<lparr>secret = ''sk_test_123''\<rparr> (stub 200 []) ''ref123''))
     = \<lparr>secret = ''sk_test_123''\<rparr> \<and>
   NewClient [''PAYSTACK_SECRET'' \<mapsto> ''sk_test_123''] = Returned \<lparr>secret = ''sk_test_123''\<rparr>"
proof -
  have n: "fst (snd (VerifyTransaction \<lparr>secret = ''sk_test_123''\<rparr> (stub 200 []) ''ref123'')) \<noteq> []"
    by (simp add: VerifyTransaction_def request_def url_eval no_marshal_def stub_def
          json_Unmarshal_def json_parse_def)
  then have h: "hd (fst (snd (VerifyTransaction \<lparr>secret = ''sk_test_123''\<rparr> (stub 200 []) ''ref123'')))
                  \<in> set (fst (snd (VerifyTransaction \<lparr>secret = ''sk_test_123''\<rparr> (stub 200 []) ''ref123'')))"
    by (rule hd_in_set)
  have k: "NewClient [''PAYSTACK_SECRET'' \<mapsto> ''sk_test_123''] = Returned \<lparr>secret = ''sk_test_123''\<rparr>"
    by (simp add: NewClient_def Getenv_def)
  show ?thesis
    using n h k requests_carry_bearer_secret [where c = "\<lparr>secret = ''sk_test_123''\<rparr>"
        and Do = "stub 200 []" and ref = "''ref123''" and email = "[]" and amount = 0
        and authCode = "[]" and m = no_marshal and um = no_unmarshal and url = "[]"
        and meth = "[]" and q = None and r = None
        and env = "[''PAYSTACK_SECRET'' \<mapsto> ''sk_test_123'']"]
    by auto
qed











lemma request_propagates:
  fixes m :: "'q \<Rightarrow> error + string" and um :: "string \<Rightarrow> 'r \<Rightarrow> error option \<times> 'r"
  shows "(m x = Inl err \<longrightarrow> request c Do m um url meth (Some x) r = (Some err, r, [])) \<and>
    ((case q of None \<Rightarrow> Inr [] | Some x \<Rightarrow> m x) = Inr body \<and>
         NewRequestWithContext meth url body = Inl err \<longrightarrow>
           request c Do m um url meth q r = (Some err, r, [])) \<and>
    ((case q of None \<Rightarrow> Inr [] | Some x \<Rightarrow> m x) = Inr body \<and>
         NewRequestWithContext meth url body = Inr req0 \<and>
         Do (req0\<lparr>Header := [(''Authorization'', [''Bearer '' @ secret c])]\<rparr>) = Inl err \<longrightarrow>
           fst (request c Do m um url meth q r) = Some err) \<and>
    ((case q of None \<Rightarrow> Inr [] | Some x \<Rightarrow> m x) = Inr body \<and>
         NewRequestWithContext meth url body = Inr req0 \<and>
         Do (req0\<lparr>Header := [(''Authorization'', [''Bearer '' @ secret c])]\<rparr>) = Inr resp \<and>
         RespBody resp = Inl err \<longrightarrow>
           fst (request c Do m um url meth q r) = Some err) \<and>
    ((case q of None \<Rightarrow> Inr [] | Some x \<Rightarrow> m x) = Inr body \<and>
         NewRequestWithContext meth url body = Inr req0 \<and>
         Do (req0\<lparr>Header := [(''Authorization'', [''Bearer '' @ secret c])]\<rparr>) = Inr resp \<and>
         RespBody resp = Inr b \<and> StatusCode resp \<noteq> 200 \<longrightarrow>
           fst (request c Do m um url meth q r) = Some (Errorf b)) \<and>
    ((case q of None \<Rightarrow> Inr [] | Some x \<Rightarrow> m x) = Inr body \<and>
         NewRequestWithContext meth url body = Inr req0 \<and>
         Do (req0\<lparr>Header := [(''Authorization'', [''Bearer '' @ secret c])]\<rparr>) = Inr resp \<and>
         RespBody resp = Inr b \<and> StatusCode resp = 200 \<and> um b dst = (Some err, dst') \<longrightarrow>
           fst (request c Do m um url meth q (Some dst)) = Some err)"
proof -
  have p1: "m x = Inl err \<longrightarrow> request c Do m um url meth (Some x) r = (Some err, r, [])"
    by (simp add: request_def)
  have p2: "(case q of None \<Rightarrow> Inr [] | Some x \<Rightarrow> m x) = Inr body \<and>
         NewRequestWithContext meth url body = Inl err \<longrightarrow>
           request c Do m um url meth q r = (Some err, r, [])"
    by (simp add: request_def)
  have H: "NewRequestWithContext meth url body = Inr req0 \<Longrightarrow>
             req0\<lparr>Header := Header_Set (Header req0) ''Authorization'' (''Bearer '' @ secret c)\<rparr>
               = req0\<lparr>Header := [(''Authorization'', [''Bearer '' @ secret c])]\<rparr>"
    by (simp add: NewRequest_Header Header_Set_def)
  have p3: "(case q of None \<Rightarrow> Inr [] | Some x \<Rightarrow> m x) = Inr body \<and>
         NewRequestWithContext meth url body = Inr req0 \<and>
         Do (req0\<lparr>Header := [(''Authorization'', [''Bearer '' @ secret c])]\<rparr>) = Inl err \<longrightarrow>
           fst (request c Do m um url meth q r) = Some err"
    using H by (auto simp: request_def Let_def)
  have p4: "(case q of None \<Rightarrow> Inr [] | Some x \<Rightarrow> m x) = Inr body \<and>
         NewRequestWithContext meth url body = Inr req0 \<and>
         Do (req0\<lparr>Header := [(''Authorization'', [''Bearer '' @ secret c])]\<rparr>) = Inr resp \<and>
         RespBody resp = Inl err \<longrightarrow>
           fst (request c Do m um url meth q r) = Some err"
    using H by (auto simp: request_def Let_def)
  have p5: "(case q of None \<Rightarrow> Inr [] | Some x \<Rightarrow> m x) = Inr body \<and>
         NewRequestWithContext meth url body = Inr req0 \<and>
         Do (req0\<lparr>Header := [(''Authorization'', [''Bearer '' @ secret c])]\<rparr>) = Inr resp \<and>
         RespBody resp = Inr b \<and> StatusCode resp \<noteq> 200 \<longrightarrow>
           fst (request c Do m um url meth q r) = Some (Errorf b)"
    using H by (auto simp: request_def Let_def)
  have p6: "(case q of None \<Rightarrow> Inr [] | Some x \<Rightarrow> m x) = Inr body \<and>
         NewRequestWithContext meth url body = Inr req0 \<and>
         Do (req0\<lparr>Header := [(''Authorization'', [''Bearer '' @ secret c])]\<rparr>) = Inr resp \<and>
         RespBody resp = Inr b \<and> StatusCode resp = 200 \<and> um b dst = (Some err, dst') \<longrightarrow>
           fst (request c Do m um url meth q (Some dst)) = Some err"
    using H by (auto simp: request_def Let_def)
  from p1 p2 p3 p4 p5 p6 show ?thesis by blast
qed

lemma request_success:
  fixes m :: "'q \<Rightarrow> error + string" and um :: "string \<Rightarrow> 'r \<Rightarrow> error option \<times> 'r"
  assumes "fst (request c Do m um url meth q r) = None"
  shows "\<exists>body req0 resp b.
           (case q of None \<Rightarrow> Inr [] | Some x \<Rightarrow> m x) = Inr body \<and>
           NewRequestWithContext meth url body = Inr req0 \<and>
           Do (req0\<lparr>Header := [(''Authorization'', [''Bearer '' @ secret c])]\<rparr>) = Inr resp \<and>
           RespBody resp = Inr b \<and> StatusCode resp = 200 \<and>
           (case r of None \<Rightarrow> True | Some dst \<Rightarrow> fst (um b dst) = None)"
proof -
  obtain body where b: "(case q of None \<Rightarrow> Inr [] | Some x \<Rightarrow> m x) = Inr body"
    using assms by (cases "case q of None \<Rightarrow> Inr [] | Some x \<Rightarrow> m x") (auto simp: request_def)
  obtain req0 where n: "NewRequestWithContext meth url body = Inr req0"
    using assms b by (cases "NewRequestWithContext meth url body") (auto simp: request_def)
  have H: "req0\<lparr>Header := Header_Set (Header req0) ''Authorization'' (''Bearer '' @ secret c)\<rparr>
               = req0\<lparr>Header := [(''Authorization'', [''Bearer '' @ secret c])]\<rparr>"
    using n by (simp add: NewRequest_Header Header_Set_def)
  obtain resp where d: "Do (req0\<lparr>Header := [(''Authorization'', [''Bearer '' @ secret c])]\<rparr>) = Inr resp"
    using assms b n H
    by (cases "Do (req0\<lparr>Header := [(''Authorization'', [''Bearer '' @ secret c])]\<rparr>)")
       (auto simp: request_def Let_def)
  obtain rb where rb: "RespBody resp = Inr rb"
    using assms b n H d by (cases "RespBody resp") (auto simp: request_def Let_def)
  have st: "StatusCode resp = 200"
    using assms b n H d rb by (auto simp: request_def Let_def split: if_splits)
  have dec: "(case r of None \<Rightarrow> True | Some dst \<Rightarrow> fst (um rb dst) = None)"
    using assms b n H d rb st
    by (auto simp: request_def Let_def split: option.splits prod.splits)
  from b n d rb st dec show ?thesis by blast
qed

text \<open>
  C9.  Each of the four operations that return a result value returns no result whenever
  it returns an error, also where \<open>json.Unmarshal\<close> has filled the response shape in part
  before it failed.  No failure is dropped: the error an operation returns is the one
  the dispatcher returned, and the dispatcher returns the error of whichever step
  failed - encoding the payload, building the request, the transport, reading the
  body, a status other than 200, decoding - and returns no error only when none of
  them failed.  In particular every operation fails with the error of a failing
  transport, and \<open>VerifyTransaction\<close> with the error of a URL that is refused.
\<close>

theorem error_excludes_result:
  fixes m :: "'q \<Rightarrow> error + string" and um :: "string \<Rightarrow> 'r \<Rightarrow> error option \<times> 'r"
  shows
  "(snd (fst (CreateCustomer c Do email)) \<noteq> None \<longrightarrow> fst (fst (CreateCustomer c Do email)) = None) \<and>
   (snd (fst (InitializeTransaction c Do email amount)) \<noteq> None \<longrightarrow>
      fst (fst (InitializeTransaction c Do email amount)) = None) \<and>
   (snd (fst (ChargeAuthorization c Do email amount authCode)) \<noteq> None \<longrightarrow>
      fst (fst (ChargeAuthorization c Do email amount authCode)) = None) \<and>
   (snd (fst (VerifyTransaction c Do ref)) \<noteq> None \<longrightarrow> fst (fst (VerifyTransaction c Do ref)) = None) \<and>
   snd (fst (CreateCustomer c Do email)) =
     fst (request c Do (json_Marshal Customer_json)
            (json_Unmarshal (store_struct CreateCustomerResp_set_field))
            ''https://api.paystack.co/customer'' ''POST''
            (Some \<lparr>Id = 0, Email = email, CustomerCode = []\<rparr>) (Some \<lparr>ccr_Data = None\<rparr>)) \<and>
   snd (fst (InitializeTransaction c Do email amount)) =
     fst (request c Do (json_Marshal InitTransactionReq_json)
            (json_Unmarshal (store_struct InitTransactionResp_set_field))
            ''https://api.paystack.co/transaction/initialize'' ''POST''
            (Some \<lparr>itq_Email = email, itq_Amount = Sprintf_d (sint amount)\<rparr>)
            (Some \<lparr>itr_Data = None\<rparr>)) \<and>
   snd (fst (ChargeAuthorization c Do email amount authCode)) =
     fst (request c Do (json_Marshal ChargeTransactionReq_json)
            (json_Unmarshal (store_struct ChargeTransactionResp_set_field))
            ''https://api.paystack.co/transaction/charge_authorization'' ''POST''
            (Some \<lparr>ctq_Email = email, ctq_Amount = Sprintf_d (sint amount),
                    ctq_AuthorizationCode = authCode\<rparr>)
            (Some \<lparr>ctr_Data = None\<rparr>)) \<and>
   snd (fst (VerifyTransaction c Do ref)) =
     fst (request c Do no_marshal
            (json_Unmarshal (store_struct VerifiedTransactionResp_set_field))
            (''https://api.paystack.co/transaction/verify/'' @ ref) ''GET'' None
            (Some \<lparr>vtr_Data = None\<rparr>)) \<and>
   fst (ValidateCredentials c Do) =
     fst (request c Do no_marshal no_unmarshal ''https://api.paystack.co/customer'' ''GET'' None None) \<and>
   (m x = Inl err \<longrightarrow> request c Do m um url meth (Some x) r = (Some err, r, [])) \<and>
   ((case q of None \<Rightarrow> Inr [] | Some x \<Rightarrow> m x) = Inr body \<and>
    NewRequestWithContext meth url body = Inl err \<longrightarrow>
      request c Do m um url meth q r = (Some err, r, [])) \<and>
   ((case q of None \<Rightarrow> Inr [] | Some x \<Rightarrow> m x) = Inr body \<and>
    NewRequestWithContext meth url body = Inr req0 \<and>
    Do (req0\<lparr>Header := [(''Authorization'', [''Bearer '' @ secret c])]\<rparr>) = Inl err \<longrightarrow>
      fst (request c Do m um url meth q r) = Some err) \<and>
   ((case q of None \<Rightarrow> Inr [] | Some x \<Rightarrow> m x) = Inr body \<and>
    NewRequestWithContext meth url body = Inr req0 \<and>
    Do (req0\<lparr>Header := [(''Authorization'', [''Bearer '' @ secret c])]\<rparr>) = Inr resp \<and>
    RespBody resp = Inl err \<longrightarrow>
      fst (request c Do m um url meth q r) = Some err) \<and>
   ((case q of None \<Rightarrow> Inr [] | Some x \<Rightarrow> m x) = Inr body \<and>
    NewRequestWithContext meth url body = Inr req0 \<and>
    Do (req0\<lparr>Header := [(''Authorization'', [''Bearer '' @ secret c])]\<rparr>) = Inr resp \<and>
    RespBody resp = Inr b \<and> StatusCode resp \<noteq> 200 \<longrightarrow>
      fst (request c Do m um url meth q r) = Some (Errorf b)) \<and>
   ((case q of None \<Rightarrow> Inr [] | Some x \<Rightarrow> m x) = Inr body \<and>
    NewRequestWithContext meth url body = Inr req0 \<and>
    Do (req0\<lparr>Header := [(''Authorization'', [''Bearer '' @ secret c])]\<rparr>) = Inr resp \<and>
    RespBody resp = Inr b \<and> StatusCode resp = 200 \<and> um b dst = (Some err, dst') \<longrightarrow>
      fst (request c Do m um url meth q (Some dst)) = Some err) \<and>
   (fst (request c Do m um url meth q r) = None \<longrightarrow>
      (\<exists>body req0 resp b.
           (case q of None \<Rightarrow> Inr [] | Some x \<Rightarrow> m x) = Inr body \<and>
           NewRequestWithContext meth url body = Inr req0 \<and>
           Do (req0\<lparr>Header := [(''Authorization'', [''Bearer '' @ secret c])]\<rparr>) = Inr resp \<and>
           RespBody resp = Inr b \<and> StatusCode resp = 200 \<and>
           (case r of None \<Rightarrow> True | Some dst \<Rightarrow> fst (um b dst) = None))) \<and>
   fst (ValidateCredentials c (failing err) ) = Some err \<and>
   fst (CreateCustomer c (failing err) email) = (None, Some err) \<and>
   fst (InitializeTransaction c (failing err) email amount) = (None, Some err) \<and>
   fst (ChargeAuthorization c (failing err) email amount authCode) = (None, Some err) \<and>
   (url_Parse (''https://api.paystack.co/transaction/verify/'' @ ref) = None \<longrightarrow>
      fst (VerifyTransaction c (failing err) ref) = (None, Some err)) \<and>
   (url_Parse (''https://api.paystack.co/transaction/verify/'' @ ref) = Some err \<longrightarrow>
      fst (VerifyTransaction c Do ref) = (None, Some err))"
proof -
  have 1: "(snd (fst (CreateCustomer c Do email)) \<noteq> None \<longrightarrow> fst (fst (CreateCustomer c Do email)) = None) \<and>
     snd (fst (CreateCustomer c Do email)) =
     fst (request c Do (json_Marshal Customer_json)
            (json_Unmarshal (store_struct CreateCustomerResp_set_field))
            ''https://api.paystack.co/customer'' ''POST''
            (Some \<lparr>Id = 0, Email = email, CustomerCode = []\<rparr>) (Some \<lparr>ccr_Data = None\<rparr>))"
    unfolding CreateCustomer_def Let_def
    by (simp split: prod.splits option.splits)
  have 2: "(snd (fst (InitializeTransaction c Do email amount)) \<noteq> None \<longrightarrow>
      fst (fst (InitializeTransaction c Do email amount)) = None) \<and>
     snd (fst (InitializeTransaction c Do email amount)) =
     fst (request c Do (json_Marshal InitTransactionReq_json)
            (json_Unmarshal (store_struct InitTransactionResp_set_field))
            ''https://api.paystack.co/transaction/initialize'' ''POST''
            (Some \<lparr>itq_Email = email, itq_Amount = Sprintf_d (sint amount)\<rparr>)
            (Some \<lparr>itr_Data = None\<rparr>))"
    unfolding InitializeTransaction_def Let_def
    by (simp split: prod.splits option.splits)
  have 3: "(snd (fst (ChargeAuthorization c Do email amount authCode)) \<noteq> None \<longrightarrow>
      fst (fst (ChargeAuthorization c Do email amount authCode)) = None) \<and>
     snd (fst (ChargeAuthorization c Do email amount authCode)) =
     fst (request c Do (json_Marshal ChargeTransactionReq_json)
            (json_Unmarshal (store_struct ChargeTransactionResp_set_field))
            ''https://api.paystack.co/transaction/charge_authorization'' ''POST''
            (Some \<lparr>ctq_Email = email, ctq_Amount = Sprintf_d (sint amount),
                    ctq_AuthorizationCode = authCode\<rparr>)
            (Some \<lparr>ctr_Data = None\<rparr>))"
    unfolding ChargeAuthorization_def Let_def
    by (simp split: prod.splits option.splits)
  have 4: "(snd (fst (VerifyTransaction c Do ref)) \<noteq> None \<longrightarrow> fst (fst (VerifyTransaction c Do ref)) = None) \<and>
     snd (fst (VerifyTransaction c Do ref)) =
     fst (request c Do no_marshal
            (json_Unmarshal (store_struct VerifiedTransactionResp_set_field))
            (''https://api.paystack.co/transaction/verify/'' @ ref) ''GET'' None
            (Some \<lparr>vtr_Data = None\<rparr>))"
    unfolding VerifyTransaction_def Let_def
    by (simp split: prod.splits option.splits)
  have 5: "fst (ValidateCredentials c Do) =
     fst (request c Do no_marshal no_unmarshal ''https://api.paystack.co/customer'' ''GET'' None None)"
    unfolding ValidateCredentials_def Let_def
    by (simp split: prod.splits)
  have 6: "fst (ValidateCredentials c (failing err)) = Some err"
    by (simp add: ValidateCredentials_def request_def new_request failing_def)
  have 7: "fst (CreateCustomer c (failing err) email) = (None, Some err)"
    by (simp add: CreateCustomer_def request_def new_request failing_def json_Marshal_def)
  have 8: "fst (InitializeTransaction c (failing err) email amount) = (None, Some err)"
    by (simp add: InitializeTransaction_def request_def new_request failing_def json_Marshal_def)
  have 9: "fst (ChargeAuthorization c (failing err) email amount authCode) = (None, Some err)"
    by (simp add: ChargeAuthorization_def request_def new_request failing_def json_Marshal_def)
  have 10: "url_Parse (''https://api.paystack.co/transaction/verify/'' @ ref) = None \<longrightarrow>
      fst (VerifyTransaction c (failing err) ref) = (None, Some err)"
    by (simp add: VerifyTransaction_def request_def verify_request failing_def no_marshal_def)
  have 11: "url_Parse (''https://api.paystack.co/transaction/verify/'' @ ref) = Some err \<longrightarrow>
      fst (VerifyTransaction c Do ref) = (None, Some err)"
    by (simp add: VerifyTransaction_def request_def verify_request no_marshal_def)
  have 12: "fst (request c Do m um url meth q r) = None \<longrightarrow>
      (\<exists>body req0 resp b.
           (case q of None \<Rightarrow> Inr [] | Some x \<Rightarrow> m x) = Inr body \<and>
           NewRequestWithContext meth url body = Inr req0 \<and>
           Do (req0\<lparr>Header := [(''Authorization'', [''Bearer '' @ secret c])]\<rparr>) = Inr resp \<and>
           RespBody resp = Inr b \<and> StatusCode resp = 200 \<and>
           (case r of None \<Rightarrow> True | Some dst \<Rightarrow> fst (um b dst) = None))"
    using request_success [of c Do m um url meth q r] by blast
  note p = request_propagates [where m = m and x = x and err = err and c = c and Do = Do
      and um = um and url = url and meth = meth and r = r and q = q and body = body
      and ?req0.0 = req0 and resp = resp and b = b and dst = dst and dst' = dst']
  note p1 = p [THEN conjunct1]
    and p2 = p [THEN conjunct2, THEN conjunct1]
    and p3 = p [THEN conjunct2, THEN conjunct2, THEN conjunct1]
    and p4 = p [THEN conjunct2, THEN conjunct2, THEN conjunct2, THEN conjunct1]
    and p5 = p [THEN conjunct2, THEN conjunct2, THEN conjunct2, THEN conjunct2, THEN conjunct1]
    and p6 = p [THEN conjunct2, THEN conjunct2, THEN conjunct2, THEN conjunct2, THEN conjunct2]
  show ?thesis
    by (intro conjI)
       (rule 1 [THEN conjunct1] 2 [THEN conjunct1] 3 [THEN conjunct1] 4 [THEN conjunct1]
          1 [THEN conjunct2] 2 [THEN conjunct2] 3 [THEN conjunct2] 4 [THEN conjunct2]
          5 p1 p2 p3 p4 p5 p6 12 6 7 8 9 10 11)+
qed

theorem error_excludes_result_witness:
  \<open>request \<lparr>secret = ''sk_test_123''\<rparr> (stub 200 ''{"data":"x"}'') (json_Marshal Customer_json)
      (json_Unmarshal (store_struct CreateCustomerResp_set_field))
      ''https://api.paystack.co/customer'' ''POST''
      (Some \<lparr>Id = 0, Email = ''a@b.com'', CustomerCode = []\<rparr>) (Some \<lparr>ccr_Data = None\<rparr>)
    = (Some UnmarshalTypeError, Some \<lparr>ccr_Data = Some Customer_zero\<rparr>,
       [\<lparr>Method = ''POST'', URL = api_url ''/customer'',
         Header = [(''Authorization'', [''Bearer sk_test_123''])],
         Body = ''{"id":0,"email":"a@b.com","customer_code":""}''\<rparr>]) \<and>
   fst (CreateCustomer \<lparr>secret = ''sk_test_123''\<rparr> (stub 200 ''{"data":"x"}'') ''a@b.com'')
    = (None, Some UnmarshalTypeError) \<and>
   fst (VerifyTransaction \<lparr>secret = ''sk_test_123''\<rparr> (failing (TransportError ''down'')) ''ref123'')
    = (None, Some (TransportError ''down'')) \<and>
   fst (VerifyTransaction \<lparr>secret = ''sk_test_123''\<rparr> (stub 200 ''{}'') ''100%'')
    = (None, Some (UrlError ''parse'' ''https://api.paystack.co/transaction/verify/100%''
                     (EscapeError ''%'')))\<close>
proof -
  have r: \<open>request \<lparr>secret = ''sk_test_123''\<rparr> (stub 200 ''{"data":"x"}'') (json_Marshal Customer_json)
      (json_Unmarshal (store_struct CreateCustomerResp_set_field))
      ''https://api.paystack.co/customer'' ''POST''
      (Some \<lparr>Id = 0, Email = ''a@b.com'', CustomerCode = []\<rparr>) (Some \<lparr>ccr_Data = None\<rparr>)
    = (Some UnmarshalTypeError, Some \<lparr>ccr_Data = Some Customer_zero\<rparr>,
       [\<lparr>Method = ''POST'', URL = api_url ''/customer'',
         Header = [(''Authorization'', [''Bearer sk_test_123''])],
         Body = ''{"id":0,"email":"a@b.com","customer_code":""}''\<rparr>])\<close>
    by (simp add: request_def new_request json_Marshal_def Customer_json_def Sprintf_d_def
          digit_char_def quote_def escape_byte_def dquote_def bslash_def Header_Set_def stub_def
          json_Unmarshal_def json_parse_def isSpace_def isDigit_def push_frame_def
          maxNestingDepth_def store_struct_def CreateCustomerResp_set_field_def find_field_def
          store_pointer_def first_error_def)
  have a: "url_Parse (''https://api.paystack.co/transaction/verify/'' @ ''ref123'') = None"
    by (simp add: url_eval)
  have b: "url_Parse (''https://api.paystack.co/transaction/verify/'' @ ''100%'')
             = Some (UrlError ''parse'' ''https://api.paystack.co/transaction/verify/100%''
                       (EscapeError ''%''))"
    by (simp add: url_eval)
  have w1: \<open>fst (CreateCustomer \<lparr>secret = ''sk_test_123''\<rparr> (stub 200 ''{"data":"x"}'') ''a@b.com'')
              = (None, Some UnmarshalTypeError)\<close>
    using r error_excludes_result [where c = "\<lparr>secret = ''sk_test_123''\<rparr>"
        and Do = \<open>stub 200 ''{"data":"x"}''\<close> and email = "''a@b.com''" and amount = 0
        and authCode = "[]" and ref = "[]" and m = no_marshal and um = no_unmarshal
        and x = "()" and err = "MarshalError" and url = "[]" and meth = "[]" and r = None
        and q = None and body = "[]" and b = "[]" and dst = "()" and dst' = "()", THEN conjunct1]
      error_excludes_result [where c = "\<lparr>secret = ''sk_test_123''\<rparr>"
        and Do = \<open>stub 200 ''{"data":"x"}''\<close> and email = "''a@b.com''" and amount = 0
        and authCode = "[]" and ref = "[]" and m = no_marshal and um = no_unmarshal
        and x = "()" and err = "MarshalError" and url = "[]" and meth = "[]" and r = None
        and q = None and body = "[]" and b = "[]" and dst = "()" and dst' = "()", THEN conjunct2, THEN conjunct2, THEN conjunct2, THEN conjunct2, THEN conjunct1]
    by (cases \<open>fst (CreateCustomer \<lparr>secret = ''sk_test_123''\<rparr> (stub 200 ''{"data":"x"}'') ''a@b.com'')\<close>) simp
  have w2: \<open>fst (VerifyTransaction \<lparr>secret = ''sk_test_123''\<rparr> (failing (TransportError ''down'')) ''ref123'')
              = (None, Some (TransportError ''down''))\<close>
    using a error_excludes_result [where c = "\<lparr>secret = ''sk_test_123''\<rparr>"
        and Do = \<open>stub 200 ''{}''\<close> and email = "''a@b.com''" and amount = 0
        and authCode = "[]" and ref = "''ref123''" and m = no_marshal and um = no_unmarshal
        and x = "()" and err = "TransportError ''down''" and url = "[]" and meth = "[]" and r = None
        and q = None and body = "[]" and b = "[]" and dst = "()" and dst' = "()", THEN conjunct2, THEN conjunct2, THEN conjunct2, THEN conjunct2, THEN conjunct2, THEN conjunct2, THEN conjunct2, THEN conjunct2, THEN conjunct2, THEN conjunct2, THEN conjunct2, THEN conjunct2, THEN conjunct2, THEN conjunct2, THEN conjunct2, THEN conjunct2, THEN conjunct2, THEN conjunct2, THEN conjunct2, THEN conjunct2, THEN conjunct1]
    by simp
  have w3: \<open>fst (VerifyTransaction \<lparr>secret = ''sk_test_123''\<rparr> (stub 200 ''{}'') ''100%'')
    = (None, Some (UrlError ''parse'' ''https://api.paystack.co/transaction/verify/100%''
                     (EscapeError ''%'')))\<close>
    using b error_excludes_result [where c = "\<lparr>secret = ''sk_test_123''\<rparr>"
        and Do = \<open>stub 200 ''{}''\<close> and email = "''a@b.com''" and amount = 0
        and authCode = "[]" and ref = "''100%''" and m = no_marshal and um = no_unmarshal
        and x = "()" and err = "UrlError ''parse'' ''https://api.paystack.co/transaction/verify/100%'' (EscapeError ''%'')" and url = "[]" and meth = "[]" and r = None
        and q = None and body = "[]" and b = "[]" and dst = "()" and dst' = "()", THEN conjunct2, THEN conjunct2, THEN conjunct2, THEN conjunct2, THEN conjunct2, THEN conjunct2, THEN conjunct2, THEN conjunct2, THEN conjunct2, THEN conjunct2, THEN conjunct2, THEN conjunct2, THEN conjunct2, THEN conjunct2, THEN conjunct2, THEN conjunct2, THEN conjunct2, THEN conjunct2, THEN conjunct2, THEN conjunct2, THEN conjunct2]
    by simp
  from r w1 w2 w3 show ?thesis by (intro conjI)
qed

text \<open>
  C6. Construction with an empty credential never returns a client: whenever the
  credential read from the environment is the empty string (unset or set to empty) the
  constructor takes the fatal path, and for every non-empty credential it returns a
  client holding exactly that credential.
\<close>

theorem NewClient_empty_fatal_nonempty_returns:
  "(Getenv env ''PAYSTACK_SECRET'' = [] \<longrightarrow> (\<exists>msg. NewClient env = Fatal msg)) \<and>
   (Getenv env ''PAYSTACK_SECRET'' \<noteq> [] \<longrightarrow>
      NewClient env = Returned \<lparr>secret = Getenv env ''PAYSTACK_SECRET''\<rparr>)"
  by (simp add: NewClient_def Let_def)

theorem NewClient_empty_fatal_nonempty_returns_witness:
  "NewClient Map.empty = Fatal ''PAYSTACK_SECRET env var not set'' \<and>
   NewClient [''PAYSTACK_SECRET'' \<mapsto> ''''] = Fatal ''PAYSTACK_SECRET env var not set'' \<and>
   NewClient [''PAYSTACK_SECRET'' \<mapsto> ''sk_test_123''] = Returned \<lparr>secret = ''sk_test_123''\<rparr>"
  using NewClient_empty_fatal_nonempty_returns [of Map.empty]
        NewClient_empty_fatal_nonempty_returns [of "[''PAYSTACK_SECRET'' \<mapsto> '''']"]
        NewClient_empty_fatal_nonempty_returns [of "[''PAYSTACK_SECRET'' \<mapsto> ''sk_test_123'']"]
  by (simp add: NewClient_def Getenv_def)

end
